theory Spec2Isabelle
  imports Main
begin

section \<open>Python string primitives used by the backend\<close>

text \<open>
  Python strings are modelled as \<open>string\<close>; a character is one code point below 256.
  \<open>isspace\<close> lists the code points below 256 that \<open>str.isspace\<close> accepts, which are the
  ones \<open>str.strip()\<close> removes at both ends.
\<close>

definition isspace :: "char \<Rightarrow> bool" where
  "isspace c =
     (let n = (of_char c :: nat)
      in (9 \<le> n \<and> n \<le> 13) \<or> (28 \<le> n \<and> n \<le> 32) \<or> n = 133 \<or> n = 160)"

definition strip :: "string \<Rightarrow> string" where
  "strip s = rev (dropWhile isspace (rev (dropWhile isspace s)))"

text \<open>\<open>s.split(sep)\<close> for a one-character separator: never an empty list.\<close>

fun split_py :: "char \<Rightarrow> string \<Rightarrow> string list" where
  "split_py sep [] = [[]]"
| "split_py sep (c # cs) =
     (if c = sep then [] # split_py sep cs
      else (case split_py sep cs of
              [] \<Rightarrow> [[c]]
            | w # ws \<Rightarrow> (c # w) # ws))"

definition startswith :: "string \<Rightarrow> string \<Rightarrow> bool" where
  "startswith s p = (take (length p) s = p)"

definition endswith :: "string \<Rightarrow> string \<Rightarrow> bool" where
  "endswith s p = (length p \<le> length s \<and> drop (length s - length p) s = p)"

definition enumerate_py :: "'a list \<Rightarrow> (nat \<times> 'a) list" where
  "enumerate_py xs = zip [0..<length xs] xs"

text \<open>\<open>str(n)\<close> for a natural number, as the f-strings \<open>Q{i+1}\<close> need it.\<close>

function str_nat :: "nat \<Rightarrow> string" where
  "str_nat n =
     (if n < 10 then [char_of (48 + n)]
      else str_nat (n div 10) @ [char_of (48 + n mod 10)])"
  by pat_completeness auto
termination
  by (relation "measure (\<lambda>n. n)") auto

abbreviation nl :: string where
  "nl \<equiv> [CHR 0x0A]"

section \<open>The environment: identifiers, the generation service\<close>

text \<open>
  \<open>uuid.uuid4()\<close> draws from a source of identifiers: \<open>u n\<close> is the value that the
  \<open>n\<close>-th call of one execution returns. The number of draws made so far is threaded
  through every operation; a call returns the next value and the incremented count.
\<close>

type_synonym uuid_source = "nat \<Rightarrow> string"

definition uuid4 :: "uuid_source \<Rightarrow> nat \<Rightarrow> string \<times> nat" where
  "uuid4 u k = (u k, Suc k)"

text \<open>
  The external text-generation service: \<open>LlmChat(...).send_message(UserMessage(...))\<close>
  either returns the reply text or raises. What it does is outside the repository, so it
  is a parameter of every definition that calls it: a function from the request (session
  identifier, system message, user text; the key and the model name are constants) to
  the outcome.

  What an external call raises is an \<open>exn\<close>, with its message: \<open>Exception m\<close> is a
  raise of Python's class \<open>Exception\<close> or a subclass, which \<open>except Exception\<close>
  catches; \<open>BaseException m\<close> is a raise outside that class
  (\<open>asyncio.CancelledError\<close>, \<open>KeyboardInterrupt\<close>, \<open>SystemExit\<close>), which
  \<open>except Exception\<close> does not catch.
\<close>

datatype exn = Exception string | BaseException string

record llm_request =
  session_id :: string
  system_message :: string
  message_text :: string

type_synonym llm = "llm_request \<Rightarrow> exn + string"

section \<open>Data model\<close>

text \<open>
  The documents of the three collections, with the keys the handlers write. Timestamps
  (\<open>datetime.utcnow()\<close>) are seconds as natural numbers and are inputs of the handlers.
  \<open>completed_at\<close> is absent until the completing update sets it.
\<close>

record question =
  q_id :: string
  q_question :: string
  q_type :: string
  q_topic :: string

record response_doc =
  r_question_id :: string
  r_answer :: string
  r_submitted_at :: nat

record interview_doc =
  i_id :: string
  i_user_id :: string
  i_job_role :: string
  i_experience_level :: string
  i_interview_type :: string
  i_status :: string
  i_questions :: "question list"
  i_responses :: "response_doc list"
  i_feedback :: "string option"
  i_created_at :: nat
  i_completed_at :: "nat option"

record resume_doc =
  rs_id :: string
  rs_user_id :: string
  rs_filename :: string
  rs_text_content :: string
  rs_uploaded_at :: nat

record user_doc =
  u_id :: string
  u_email :: string
  u_name :: string
  u_password :: string
  u_created_at :: nat

record db =
  users :: "user_doc list"
  resumes :: "resume_doc list"
  interviews :: "interview_doc list"

text \<open>
  What a function of the repository raises: an \<open>HTTPException\<close> with status and detail,
  or an exception that nothing in it catches, which leaves the function carrying the
  state \<open>'s\<close> at the raise (for a handler: the count of draws and the database).
\<close>

datatype 's raised = HTTPException nat string | Unhandled exn 's

subsection \<open>Collection operations\<close>

text \<open>
  A collection is the list of its documents in insertion order. \<open>find_one(filter)\<close>
  returns the first match. \<open>find_one(filter, sort=[(key, -1)])\<close> returns a match with
  the greatest key; among equal keys the model takes the earliest inserted one.
  \<open>update_one\<close> changes the first match only, \<open>insert_one\<close> appends.
\<close>

definition find_one :: "('a \<Rightarrow> bool) \<Rightarrow> 'a list \<Rightarrow> 'a option" where
  "find_one flt docs = List.find flt docs"

fun newest :: "('a \<Rightarrow> nat) \<Rightarrow> 'a list \<Rightarrow> 'a option" where
  "newest key [] = None"
| "newest key (d # ds) =
     (case newest key ds of
        None \<Rightarrow> Some d
      | Some b \<Rightarrow> if key b \<le> key d then Some d else Some b)"

definition find_one_sort_desc :: "('a \<Rightarrow> bool) \<Rightarrow> ('a \<Rightarrow> nat) \<Rightarrow> 'a list \<Rightarrow> 'a option" where
  "find_one_sort_desc flt key docs = newest key (filter flt docs)"

fun update_one :: "('a \<Rightarrow> bool) \<Rightarrow> ('a \<Rightarrow> 'a) \<Rightarrow> 'a list \<Rightarrow> 'a list" where
  "update_one flt upd [] = []"
| "update_one flt upd (d # ds) =
     (if flt d then upd d # ds else d # update_one flt upd ds)"

definition insert_one :: "'a \<Rightarrow> 'a list \<Rightarrow> 'a list" where
  "insert_one d docs = docs @ [d]"

section \<open>Question Generator\<close>

definition question_system_message :: "string \<Rightarrow> string \<Rightarrow> string" where
  "question_system_message job_role experience_level =
     ''You are an expert technical interviewer conducting interviews for '' @ job_role
     @ '' positions at '' @ experience_level @ '' level. '' @ nl
     @ ''            Based on the candidate's resume, generate 5-7 relevant interview questions that cover:'' @ nl
     @ ''            1. Technical skills mentioned in the resume'' @ nl
     @ ''            2. Projects and experience'' @ nl
     @ ''            3. Problem-solving abilities'' @ nl
     @ ''            4. Role-specific knowledge'' @ nl
     @ ''            '' @ nl
     @ ''            Return the questions in JSON format as an array of objects with 'id', 'question', 'type' (technical/behavioral), and 'topic' fields.''"

definition question_user_text :: "string \<Rightarrow> string \<Rightarrow> string \<Rightarrow> string" where
  "question_user_text resume_text job_role experience_level =
     ''Resume Content: '' @ take 3000 resume_text @ nl
     @ ''            '' @ nl
     @ ''            Job Role: '' @ job_role @ nl
     @ ''            Experience Level: '' @ experience_level @ nl
     @ ''            '' @ nl
     @ ''            Generate appropriate interview questions based on this resume and role.''"

definition question_request :: "string \<Rightarrow> string \<Rightarrow> string \<Rightarrow> string \<Rightarrow> llm_request" where
  "question_request sid resume_text job_role experience_level =
     \<lparr>session_id = ''interview_'' @ sid,
      system_message = question_system_message job_role experience_level,
      message_text = question_user_text resume_text job_role experience_level\<rparr>"

text \<open>
  The parsing loop \<open>for i, q in enumerate(question_texts[:7])\<close>: a line is kept when its
  stripped text is non-empty and the line itself does not start with \<open>#\<close>; the tag comes
  from the line's index \<open>i\<close>.
\<close>

definition keeps_line :: "string \<Rightarrow> bool" where
  "keeps_line q = (strip q \<noteq> [] \<and> \<not> startswith q ''#'')"

definition parsed_question :: "string \<Rightarrow> nat \<Rightarrow> string \<Rightarrow> question" where
  "parsed_question ident i q =
     \<lparr>q_id = ident, q_question = strip q,
      q_type = (if i mod 2 = 0 then ''technical'' else ''behavioral''),
      q_topic = ''general''\<rparr>"

fun parse_questions ::
  "(nat \<times> string) list \<Rightarrow> uuid_source \<Rightarrow> nat \<Rightarrow> question list \<times> nat" where
  "parse_questions [] u k = ([], k)"
| "parse_questions ((i, q) # rest) u k =
     (if keeps_line q then
        (let (ident, k1) = uuid4 u k;
             (qs, k2) = parse_questions rest u k1
         in (parsed_question ident i q # qs, k2))
      else parse_questions rest u k)"

text \<open>The five template questions used when fewer than three lines were kept.\<close>

definition parse_fallback :: "string \<Rightarrow> uuid_source \<Rightarrow> nat \<Rightarrow> question list \<times> nat" where
  "parse_fallback job_role u k =
     (let (u1, k1) = uuid4 u k;
          (u2, k2) = uuid4 u k1;
          (u3, k3) = uuid4 u k2;
          (u4, k4) = uuid4 u k3;
          (u5, k5) = uuid4 u k4
      in ([\<lparr>q_id = u1, q_question = ''Tell me about your experience with '' @ job_role @ '' technologies.'',
             q_type = ''technical'', q_topic = ''experience''\<rparr>,
           \<lparr>q_id = u2, q_question = ''Walk me through a challenging project you've worked on.'',
             q_type = ''behavioral'', q_topic = ''projects''\<rparr>,
           \<lparr>q_id = u3, q_question = ''How do you stay updated with the latest trends in '' @ job_role @ ''?'',
             q_type = ''behavioral'', q_topic = ''learning''\<rparr>,
           \<lparr>q_id = u4, q_question = ''Describe a time when you had to solve a complex technical problem.'',
             q_type = ''technical'', q_topic = ''problem-solving''\<rparr>,
           \<lparr>q_id = u5, q_question = ''What interests you most about working as a '' @ job_role @ ''?'',
             q_type = ''behavioral'', q_topic = ''motivation''\<rparr>], k5))"

text \<open>The three template questions of the \<open>except Exception\<close> branch.\<close>

definition except_fallback :: "string \<Rightarrow> uuid_source \<Rightarrow> nat \<Rightarrow> question list \<times> nat" where
  "except_fallback job_role u k =
     (let (u1, k1) = uuid4 u k;
          (u2, k2) = uuid4 u k1;
          (u3, k3) = uuid4 u k2
      in ([\<lparr>q_id = u1, q_question = ''Tell me about your experience in '' @ job_role @ ''.'',
             q_type = ''technical'', q_topic = ''experience''\<rparr>,
           \<lparr>q_id = u2, q_question = ''Walk me through your most challenging project.'',
             q_type = ''behavioral'', q_topic = ''projects''\<rparr>,
           \<lparr>q_id = u3, q_question = ''How do you approach problem-solving?'',
             q_type = ''technical'', q_topic = ''problem-solving''\<rparr>], k3))"

text \<open>
  The body of the \<open>try\<close> block of \<open>generate_interview_questions\<close>. The session
  identifier is drawn first; the call of the service is the statement that can raise, and
  then the block ends with that exception (\<open>Inl\<close>), the count of draws being what it was
  at the raise.
\<close>

definition questions_try ::
  "llm \<Rightarrow> string \<Rightarrow> string \<Rightarrow> string \<Rightarrow> uuid_source \<Rightarrow> nat \<Rightarrow> (exn + question list) \<times> nat" where
  "questions_try send_message resume_text job_role experience_level u k =
     (let (sid, k1) = uuid4 u k
      in case send_message (question_request sid resume_text job_role experience_level) of
           Inl e \<Rightarrow> (Inl e, k1)
         | Inr response \<Rightarrow>
             (let question_texts = split_py (CHR 0x0A) response;
                  (questions, k2) = parse_questions (enumerate_py (take 7 question_texts)) u k1
              in if length questions < 3
                 then (let (fb, k3) = parse_fallback job_role u k2 in (Inr fb, k3))
                 else (Inr questions, k2)))"

text \<open>
  \<open>generate_interview_questions\<close>: \<open>try\<close> the block; \<open>except Exception\<close> returns
  the three template questions, and a raise outside \<open>Exception\<close> leaves the function.
  The result is \<open>Inl\<close> when the function itself raises. The diagnostic \<open>print\<close> is
  not modelled.
\<close>

definition generate_interview_questions ::
  "llm \<Rightarrow> string \<Rightarrow> string \<Rightarrow> string \<Rightarrow> uuid_source \<Rightarrow> nat \<Rightarrow> (exn + question list) \<times> nat" where
  "generate_interview_questions send_message resume_text job_role experience_level u k =
     (case questions_try send_message resume_text job_role experience_level u k of
        (Inr questions, k1) \<Rightarrow> (Inr questions, k1)
      | (Inl (Exception e), k1) \<Rightarrow>
          (let (fb, k2) = except_fallback job_role u k1 in (Inr fb, k2))
      | (Inl (BaseException e), k1) \<Rightarrow> (Inl (BaseException e), k1))"

section \<open>Feedback Generator\<close>

definition feedback_system_message :: "string \<Rightarrow> string" where
  "feedback_system_message job_role =
     ''You are an expert interviewer providing detailed feedback for a '' @ job_role
     @ '' interview. '' @ nl
     @ ''            Analyze the candidate's responses and provide constructive feedback covering:'' @ nl
     @ ''            1. Strengths demonstrated'' @ nl
     @ ''            2. Areas for improvement'' @ nl
     @ ''            3. Technical knowledge assessment'' @ nl
     @ ''            4. Communication skills'' @ nl
     @ ''            5. Overall interview performance'' @ nl
     @ ''            6. Specific recommendations for improvement'' @ nl
     @ ''            '' @ nl
     @ ''            Provide a comprehensive but concise feedback report.''"

text \<open>
  The transcript loop \<open>for i, (q, r) in enumerate(zip(questions, responses))\<close>; the
  stored dictionaries always have the keys \<open>question\<close> and \<open>answer\<close>.
\<close>

fun interview_content :: "(nat \<times> question \<times> response_doc) list \<Rightarrow> string" where
  "interview_content [] = []"
| "interview_content ((i, q, r) # rest) =
     ''Q'' @ str_nat (i + 1) @ '': '' @ q_question q @ nl
     @ ''A'' @ str_nat (i + 1) @ '': '' @ r_answer r @ nl @ nl
     @ interview_content rest"

definition feedback_request ::
  "string \<Rightarrow> question list \<Rightarrow> response_doc list \<Rightarrow> string \<Rightarrow> llm_request" where
  "feedback_request sid questions responses job_role =
     (let content = ''Interview Questions and Responses:'' @ nl @ nl
                    @ interview_content (enumerate_py (zip questions responses))
      in \<lparr>session_id = ''feedback_'' @ sid,
          system_message = feedback_system_message job_role,
          message_text = ''Job Role: '' @ job_role @ nl @ nl @ content @ nl @ nl
                         @ ''Provide detailed feedback on this interview performance.''\<rparr>)"

definition fallback_feedback :: string where
  "fallback_feedback =
     ''Thank you for completing the interview. Your responses have been recorded and our team will review them shortly.''"

text \<open>
  The body of the \<open>try\<close> block of \<open>generate_feedback\<close>, and the function with its
  \<open>except Exception\<close> handler, which returns the fixed text (its \<open>print\<close> is not
  modelled); a raise outside \<open>Exception\<close> leaves the function.
\<close>

definition feedback_try ::
  "llm \<Rightarrow> question list \<Rightarrow> response_doc list \<Rightarrow> string \<Rightarrow> uuid_source \<Rightarrow> nat \<Rightarrow> (exn + string) \<times> nat" where
  "feedback_try send_message questions responses job_role u k =
     (let (sid, k1) = uuid4 u k
      in case send_message (feedback_request sid questions responses job_role) of
           Inl e \<Rightarrow> (Inl e, k1)
         | Inr response \<Rightarrow> (Inr response, k1))"

definition generate_feedback ::
  "llm \<Rightarrow> question list \<Rightarrow> response_doc list \<Rightarrow> string \<Rightarrow> uuid_source \<Rightarrow> nat \<Rightarrow> (exn + string) \<times> nat" where
  "generate_feedback send_message questions responses job_role u k =
     (case feedback_try send_message questions responses job_role u k of
        (Inr response, k1) \<Rightarrow> (Inr response, k1)
      | (Inl (Exception e), k1) \<Rightarrow> (Inr fallback_feedback, k1)
      | (Inl (BaseException e), k1) \<Rightarrow> (Inl (BaseException e), k1))"

section \<open>Authentication\<close>

text \<open>
  \<open>jwt.encode\<close> and \<open>jwt.decode\<close> belong to an external library; the pair is a
  parameter. The claims of a token are a dictionary from names to values.
\<close>

datatype claim_value = Str string | Datetime nat

type_synonym payload = "string \<rightharpoonup> claim_value"

datatype jwt_error = PyJWTError string

record 'tok jwt =
  jwt_encode :: "payload \<Rightarrow> string \<Rightarrow> string \<Rightarrow> 'tok"
  jwt_decode :: "'tok \<Rightarrow> string \<Rightarrow> string list \<Rightarrow> jwt_error + payload"

definition SECRET_KEY :: string where
  "SECRET_KEY = ''your-secret-key-here''"

definition ALGORITHM :: string where
  "ALGORITHM = ''HS256''"

text \<open>
  \<open>create_access_token\<close>: durations are seconds; \<open>if expires_delta:\<close> is false for an
  absent and for a zero duration, and then the validity is fifteen minutes.
\<close>

definition create_access_token :: "'tok jwt \<Rightarrow> payload \<Rightarrow> nat option \<Rightarrow> nat \<Rightarrow> 'tok" where
  "create_access_token codec data expires_delta now =
     (let expire = (case expires_delta of
                      None \<Rightarrow> now + 15 * 60
                    | Some delta \<Rightarrow> if delta \<noteq> 0 then now + delta else now + 15 * 60);
          to_encode = data(''exp'' \<mapsto> Datetime expire)
      in jwt_encode codec to_encode SECRET_KEY ALGORITHM)"

definition get_current_user :: "'tok jwt \<Rightarrow> 'tok \<Rightarrow> unit raised + claim_value" where
  "get_current_user codec credentials =
     (case jwt_decode codec credentials SECRET_KEY [ALGORITHM] of
        Inl e \<Rightarrow> Inl (HTTPException 401 ''Invalid authentication credentials'')
      | Inr payload \<Rightarrow>
          (case payload ''sub'' of
             None \<Rightarrow> Inl (HTTPException 401 ''Invalid authentication credentials'')
           | Some user_id \<Rightarrow> Inr user_id))"

section \<open>Handlers\<close>

text \<open>
  A handler takes the request, the caller's identity where the route is protected, the
  clock readings it makes, the identifier source with the count of draws, and the
  database. It returns what it raises, or its reply with the new count and database.
\<close>

subsection \<open>Registration\<close>

record user_registration =
  reg_email :: string
  reg_password :: string
  reg_name :: string

record user_view =
  view_id :: string
  view_email :: string
  view_name :: string

record 'tok token_reply =
  access_token :: 'tok
  token_type :: string
  user_info :: user_view

definition register ::
  "'tok jwt \<Rightarrow> (string \<Rightarrow> string) \<Rightarrow> user_registration \<Rightarrow> nat \<Rightarrow> nat \<Rightarrow> uuid_source \<Rightarrow> nat \<Rightarrow> db
     \<Rightarrow> (nat \<times> db) raised + ('tok token_reply \<times> nat \<times> db)" where
  "register codec hash_password user now_created now_token u k d =
     (case find_one (\<lambda>x. u_email x = reg_email user) (users d) of
        Some existing_user \<Rightarrow> Inl (HTTPException 400 ''Email already registered'')
      | None \<Rightarrow>
          (let (user_id, k1) = uuid4 u k;
               hashed_password = hash_password (reg_password user);
               user_doc = \<lparr>u_id = user_id, u_email = reg_email user, u_name = reg_name user,
                           u_password = hashed_password, u_created_at = now_created\<rparr>;
               d1 = d\<lparr>users := insert_one user_doc (users d)\<rparr>;
               token = create_access_token codec [''sub'' \<mapsto> Str user_id] (Some (24 * 60 * 60)) now_token
           in Inr (\<lparr>access_token = token, token_type = ''bearer'',
                     user_info = \<lparr>view_id = user_id, view_email = reg_email user,
                                  view_name = reg_name user\<rparr>\<rparr>, k1, d1)))"

subsection \<open>Resume upload\<close>

text \<open>
  \<open>PyPDF2.PdfReader\<close> is external: \<open>pdf_pages\<close> gives the text of each page of a file,
  or what reading it raises. \<open>extract_text_from_pdf\<close> turns what its
  \<open>except Exception\<close> catches into an \<open>HTTPException\<close> with status 400.
\<close>

record upload_file =
  filename :: string
  file_content :: string

definition extract_text_from_pdf ::
  "(string \<Rightarrow> exn + string list) \<Rightarrow> string \<Rightarrow> unit raised + string" where
  "extract_text_from_pdf pdf_pages pdf_file =
     (case pdf_pages pdf_file of
        Inl (Exception msg) \<Rightarrow> Inl (HTTPException 400 (''Error reading PDF: '' @ msg))
      | Inl (BaseException msg) \<Rightarrow> Inl (Unhandled (BaseException msg) ())
      | Inr pages \<Rightarrow> Inr (foldl (\<lambda>text page. text @ page) [] pages))"

record upload_reply =
  upload_message :: string
  resume_id :: string
  text_preview :: string

definition upload_resume ::
  "(string \<Rightarrow> exn + string list) \<Rightarrow> upload_file \<Rightarrow> string \<Rightarrow> nat \<Rightarrow> uuid_source \<Rightarrow> nat \<Rightarrow> db
     \<Rightarrow> (nat \<times> db) raised + (upload_reply \<times> nat \<times> db)" where
  "upload_resume pdf_pages file user_id now u k d =
     (if \<not> endswith (filename file) ''.pdf''
      then Inl (HTTPException 400 ''Only PDF files are allowed'')
      else case extract_text_from_pdf pdf_pages (file_content file) of
             Inl (HTTPException status detail) \<Rightarrow> Inl (HTTPException status detail)
           | Inl (Unhandled e nothing) \<Rightarrow> Inl (Unhandled e (k, d))
           | Inr resume_text \<Rightarrow>
               (let (rid, k1) = uuid4 u k;
                    resume_doc = \<lparr>rs_id = rid, rs_user_id = user_id, rs_filename = filename file,
                                  rs_text_content = resume_text, rs_uploaded_at = now\<rparr>;
                    d1 = d\<lparr>resumes := insert_one resume_doc (resumes d)\<rparr>
                in Inr (\<lparr>upload_message = ''Resume uploaded successfully'',
                          resume_id = rid,
                          text_preview = (if length resume_text > 200
                                          then take 200 resume_text @ ''...''
                                          else resume_text)\<rparr>, k1, d1)))"

subsection \<open>Starting an interview\<close>

record interview_request =
  job_role :: string
  experience_level :: string
  interview_type :: string

record start_reply =
  interview_id :: string
  questions :: "question list"
  total_questions :: nat

definition start_interview ::
  "llm \<Rightarrow> interview_request \<Rightarrow> string \<Rightarrow> nat \<Rightarrow> uuid_source \<Rightarrow> nat \<Rightarrow> db
     \<Rightarrow> (nat \<times> db) raised + (start_reply \<times> nat \<times> db)" where
  "start_interview send_message request user_id now u k d =
     (case find_one_sort_desc (\<lambda>x. rs_user_id x = user_id) rs_uploaded_at (resumes d) of
        None \<Rightarrow> Inl (HTTPException 400 ''Please upload a resume first'')
      | Some resume \<Rightarrow>
          (case generate_interview_questions send_message (rs_text_content resume)
                  (job_role request) (experience_level request) u k of
             (Inl e, k1) \<Rightarrow> Inl (Unhandled e (k1, d))
           | (Inr qs, k1) \<Rightarrow>
               (let (iid, k2) = uuid4 u k1;
                    interview_doc =
                      \<lparr>i_id = iid, i_user_id = user_id, i_job_role = job_role request,
                       i_experience_level = experience_level request,
                       i_interview_type = interview_type request,
                       i_status = ''in_progress'', i_questions = qs, i_responses = [],
                       i_feedback = None, i_created_at = now, i_completed_at = None\<rparr>;
                    d1 = d\<lparr>interviews := insert_one interview_doc (interviews d)\<rparr>
                in Inr (\<lparr>interview_id = iid, questions = qs,
                          total_questions = length qs\<rparr>, k2, d1))))"

subsection \<open>Submitting a response\<close>

record interview_response =
  question_id :: string
  answer :: string

text \<open>The reply dictionary; a key that the reply does not have is \<open>None\<close>.\<close>

record submit_reply =
  message :: string
  completed :: bool
  feedback :: "string option"
  next_question :: "nat option"

definition active_interview :: "string \<Rightarrow> interview_doc \<Rightarrow> bool" where
  "active_interview user_id x = (i_user_id x = user_id \<and> i_status x = ''in_progress'')"

definition push_response :: "response_doc \<Rightarrow> interview_doc \<Rightarrow> interview_doc" where
  "push_response r x = x\<lparr>i_responses := i_responses x @ [r]\<rparr>"

definition set_completed :: "string \<Rightarrow> nat \<Rightarrow> interview_doc \<Rightarrow> interview_doc" where
  "set_completed fb now x =
     x\<lparr>i_status := ''completed'', i_feedback := Some fb, i_completed_at := Some now\<rparr>"

text \<open>
  \<open>submit_response\<close>. The re-read \<open>updated_interview\<close> is subscripted at once; were
  it \<open>None\<close>, that would raise a \<open>TypeError\<close> that nothing catches. What
  \<open>generate_feedback\<close> raises leaves the handler after the response was appended and
  before the completing update.
\<close>

definition submit_response ::
  "llm \<Rightarrow> interview_response \<Rightarrow> string \<Rightarrow> nat \<Rightarrow> nat \<Rightarrow> uuid_source \<Rightarrow> nat \<Rightarrow> db
     \<Rightarrow> (nat \<times> db) raised + (submit_reply \<times> nat \<times> db)" where
  "submit_response send_message response user_id now_submitted now_completed u k d =
     (case find_one_sort_desc (active_interview user_id) i_created_at (interviews d) of
        None \<Rightarrow> Inl (HTTPException 404 ''No active interview found'')
      | Some interview \<Rightarrow>
          (let response_doc = \<lparr>r_question_id = question_id response,
                               r_answer = answer response,
                               r_submitted_at = now_submitted\<rparr>;
               ivs1 = update_one (\<lambda>x. i_id x = i_id interview) (push_response response_doc)
                        (interviews d)
           in case find_one (\<lambda>x. i_id x = i_id interview) ivs1 of
                None \<Rightarrow> Inl (Unhandled (Exception ''TypeError'') (k, d\<lparr>interviews := ivs1\<rparr>))
              | Some updated_interview \<Rightarrow>
                  if length (i_responses updated_interview) \<ge> length (i_questions updated_interview)
                  then
                    (case generate_feedback send_message (i_questions updated_interview)
                            (i_responses updated_interview) (i_job_role updated_interview) u k of
                       (Inl e, k1) \<Rightarrow> Inl (Unhandled e (k1, d\<lparr>interviews := ivs1\<rparr>))
                     | (Inr fb, k1) \<Rightarrow>
                         (let ivs2 = update_one (\<lambda>x. i_id x = i_id interview)
                                       (set_completed fb now_completed) ivs1
                          in Inr (\<lparr>message = ''Interview completed!'', completed = True,
                                    feedback = Some fb, next_question = None\<rparr>,
                                  k1, d\<lparr>interviews := ivs2\<rparr>)))
                  else Inr (\<lparr>message = ''Response recorded'', completed = False,
                             feedback = None,
                             next_question = Some (length (i_responses updated_interview))\<rparr>,
                            k, d\<lparr>interviews := ivs1\<rparr>)))"


section \<open>Sequential executions\<close>

text \<open>
  The states that sequences of handler calls that return their reply reach from the empty
  database, all drawing from one identifier source \<open>u\<close>. Every call may meet a
  different reply of the external services. A call that raises is not a step: one that
  raises an \<open>HTTPException\<close> changes nothing, and the state that an unhandled raise
  leaves (\<open>Unhandled\<close>) is not followed.
\<close>

definition empty_db :: db where
  "empty_db = \<lparr>users = [], resumes = [], interviews = []\<rparr>"

inductive reachable :: "uuid_source \<Rightarrow> nat \<times> db \<Rightarrow> bool" for u :: uuid_source where
  reach_init: "reachable u (0, empty_db)"
| reach_register:
    "reachable u (k, d) \<Longrightarrow>
     register (codec :: string jwt) hash_password user t1 t2 u k d = Inr (reply, k', d') \<Longrightarrow>
     reachable u (k', d')"
| reach_upload:
    "reachable u (k, d) \<Longrightarrow>
     upload_resume pdf_pages file user_id t u k d = Inr (reply, k', d') \<Longrightarrow>
     reachable u (k', d')"
| reach_start:
    "reachable u (k, d) \<Longrightarrow>
     start_interview send_message request user_id t u k d = Inr (reply, k', d') \<Longrightarrow>
     reachable u (k', d')"
| reach_submit:
    "reachable u (k, d) \<Longrightarrow>
     submit_response send_message response user_id t1 t2 u k d = Inr (reply, k', d') \<Longrightarrow>
     reachable u (k', d')"

section \<open>Notions used to state the properties\<close>

text \<open>
  \<open>replace_doc new docs\<close>: the collection with every document that carries the
  identifier of \<open>new\<close> replaced by \<open>new\<close>, and every other document as it was.
\<close>

definition replace_doc :: "interview_doc \<Rightarrow> interview_doc list \<Rightarrow> interview_doc list" where
  "replace_doc new docs = map (\<lambda>x. if i_id x = i_id new then new else x) docs"


text \<open>
  The lines that the parsing loop keeps, each with its index among the first seven lines
  of the reply.
\<close>

definition kept_lines :: "string \<Rightarrow> (nat \<times> string) list" where
  "kept_lines response =
     filter (\<lambda>(i, q). keeps_line q) (enumerate_py (take 7 (split_py (CHR 0x0A) response)))"

text \<open>A question without its identifier: text, category tag and topic.\<close>

definition question_view :: "question \<Rightarrow> string \<times> string \<times> string" where
  "question_view q = (q_question q, q_type q, q_topic q)"

text \<open>
  The parsing policy as the specification words it: every kept line of the whole reply
  becomes a question, the tag alternates with the position of the question, and the list
  is cut to seven questions.
\<close>

definition spec_questions :: "string \<Rightarrow> (string \<times> string \<times> string) list" where
  "spec_questions response =
     map (\<lambda>(j, q). (strip q, if j mod 2 = 0 then ''technical'' else ''behavioral'', ''general''))
       (enumerate_py (take 7 (filter keeps_line (split_py (CHR 0x0A) response))))"

text \<open>
  Identifiers of the interviews are pairwise distinct and were all drawn from the source
  before the current count.
\<close>

definition ids_drawn :: "uuid_source \<Rightarrow> nat \<Rightarrow> db \<Rightarrow> bool" where
  "ids_drawn u k d =
     (distinct (map i_id (interviews d)) \<and> (\<forall>iv\<in>set (interviews d). \<exists>n<k. i_id iv = u n))"

definition lifecycle_ok :: "interview_doc \<Rightarrow> bool" where
  "lifecycle_ok iv =
     ((i_status iv = ''in_progress'' \<or> i_status iv = ''completed'') \<and>
      (i_status iv = ''in_progress'' \<longrightarrow>
         length (i_responses iv) < length (i_questions iv) \<and> i_feedback iv = None) \<and>
      (i_status iv = ''completed'' \<longrightarrow>
         length (i_responses iv) = length (i_questions iv) \<and> i_feedback iv \<noteq> None))"

section \<open>A sample execution\<close>

text \<open>
  Concrete inputs: an identifier source without repetitions, a generation service that is
  down, one whose call is cancelled, one that answers with questions separated by blank lines, a token codec that
  checks key and algorithm, and the databases that one user's session goes through.
\<close>

definition sample_uuid :: uuid_source where
  "sample_uuid n = ''id-'' @ replicate n (CHR ''x'')"

definition unavailable :: llm where
  "unavailable = (\<lambda>request. Inl (Exception ''service unavailable''))"

definition cancelled :: llm where
  "cancelled = (\<lambda>request. Inl (BaseException ''CancelledError''))"

definition replies_with :: "string \<Rightarrow> llm" where
  "replies_with response = (\<lambda>request. Inr response)"

definition sample_reply :: string where
  "sample_reply = ''Q1'' @ nl @ nl @ ''Q2'' @ nl @ nl @ ''Q3'' @ nl @ nl @ ''Q4'' @ nl @ nl @ ''Q5''"

definition sample_codec :: "(payload \<times> string \<times> string) jwt" where
  "sample_codec =
     \<lparr>jwt_encode = (\<lambda>p key alg. (p, key, alg)),
      jwt_decode = (\<lambda>tok key algs.
         case tok of (p, key', alg) \<Rightarrow>
           if key' = key \<and> alg \<in> set algs then Inr p
           else Inl (PyJWTError ''Signature verification failed''))\<rparr>"

definition sample_hash :: "string \<Rightarrow> string" where
  "sample_hash password = ''$2b$'' @ rev password"

definition sample_user :: user_registration where
  "sample_user = \<lparr>reg_email = ''alice@example.org'', reg_password = ''secret'', reg_name = ''Alice''\<rparr>"

definition sample_pdf :: "string \<Rightarrow> exn + string list" where
  "sample_pdf pdf_file = Inr [''Python developer, '', ''five years.'']"

definition sample_file :: upload_file where
  "sample_file = \<lparr>filename = ''cv.pdf'', file_content = ''%PDF''\<rparr>"

definition sample_request :: interview_request where
  "sample_request = \<lparr>job_role = ''Engineer'', experience_level = ''mid'', interview_type = ''text''\<rparr>"

definition sample_answer :: interview_response where
  "sample_answer = \<lparr>question_id = ''no-such-question'', answer = ''Because.''\<rparr>"

definition sample_response_doc :: "nat \<Rightarrow> response_doc" where
  "sample_response_doc t =
     \<lparr>r_question_id = ''no-such-question'', r_answer = ''Because.'', r_submitted_at = t\<rparr>"

definition sample_resume :: resume_doc where
  "sample_resume =
     \<lparr>rs_id = sample_uuid 0, rs_user_id = ''alice'', rs_filename = ''cv.pdf'',
      rs_text_content = ''Python developer, five years.'', rs_uploaded_at = 10\<rparr>"

definition first_interview :: interview_doc where
  "first_interview =
     \<lparr>i_id = sample_uuid 5, i_user_id = ''alice'', i_job_role = ''Engineer'',
      i_experience_level = ''mid'', i_interview_type = ''text'', i_status = ''in_progress'',
      i_questions = fst (except_fallback ''Engineer'' sample_uuid 2), i_responses = [],
      i_feedback = None, i_created_at = 20, i_completed_at = None\<rparr>"

definition first_interview_done :: interview_doc where
  "first_interview_done =
     first_interview\<lparr>i_status := ''completed'',
       i_responses := [sample_response_doc 30, sample_response_doc 31, sample_response_doc 32],
       i_feedback := Some fallback_feedback, i_completed_at := Some 33\<rparr>"

definition second_interview :: interview_doc where
  "second_interview =
     first_interview\<lparr>i_id := sample_uuid 11,
       i_questions := fst (except_fallback ''Engineer'' sample_uuid 8), i_created_at := 50\<rparr>"

definition second_interview_two :: interview_doc where
  "second_interview_two =
     second_interview\<lparr>i_responses := [sample_response_doc 60, sample_response_doc 61]\<rparr>"

definition second_interview_done :: interview_doc where
  "second_interview_done =
     second_interview\<lparr>i_status := ''completed'',
       i_responses := [sample_response_doc 60, sample_response_doc 61, sample_response_doc 62],
       i_feedback := Some fallback_feedback, i_completed_at := Some 63\<rparr>"

definition db_uploaded :: db where
  "db_uploaded = \<lparr>users = [], resumes = [sample_resume], interviews = []\<rparr>"

definition db_with :: "interview_doc list \<Rightarrow> db" where
  "db_with ivs = db_uploaded\<lparr>interviews := ivs\<rparr>"



section \<open>Auxiliary facts\<close>

lemma uuid4_simp [simp]: "uuid4 u k = (u k, Suc k)"
  by (simp add: uuid4_def)

lemma parse_questions_length:
  "parse_questions xs u k = (qs, k') \<Longrightarrow> length qs \<le> length xs \<and> k' = k + length qs"
proof (induction xs arbitrary: k qs k')
  case Nil
  then show ?case by simp
next
  case (Cons x xs)
  obtain i q where x: "x = (i, q)" by (cases x)
  show ?case
  proof (cases "keeps_line q")
    case True
    obtain qs1 k1 where r: "parse_questions xs u (Suc k) = (qs1, k1)"
      by (cases "parse_questions xs u (Suc k)")
    from Cons.IH [OF r] Cons.prems x True r show ?thesis by auto
  next
    case False
    with Cons.prems x have "parse_questions xs u k = (qs, k')" by simp
    from Cons.IH [OF this] show ?thesis by simp
  qed
qed

lemma parse_fallback_eq:
  "\<exists>qs. parse_fallback j u k = (qs, k + 5) \<and> length qs = 5"
  by (simp add: parse_fallback_def)

lemma except_fallback_eq:
  "\<exists>qs. except_fallback j u k = (qs, k + 3) \<and> length qs = 3"
  by (simp add: except_fallback_def)

lemma length_enumerate_py [simp]: "length (enumerate_py xs) = length xs"
  by (simp add: enumerate_py_def)

lemma questions_try_bounds:
  "questions_try send r j l u k = (Inr qs, k') \<Longrightarrow> 3 \<le> length qs \<and> length qs \<le> 7 \<and> k < k'"
proof -
  assume a: "questions_try send r j l u k = (Inr qs, k')"
  show ?thesis
  proof (cases "send (question_request (u k) r j l)")
    case (Inl e)
    with a show ?thesis by (simp add: questions_try_def)
  next
    case (Inr response)
    obtain ps k2 where p: "parse_questions (enumerate_py (take 7 (split_py (CHR 0x0A) response))) u (Suc k) = (ps, k2)"
      by (cases "parse_questions (enumerate_py (take 7 (split_py (CHR 0x0A) response))) u (Suc k)")
    from parse_questions_length [OF p] have len: "length ps \<le> 7" and k2: "k2 = Suc k + length ps" by auto
    obtain fb where fb: "parse_fallback j u k2 = (fb, k2 + 5)" "length fb = 5"
      using parse_fallback_eq by blast
    from a Inr p fb len k2 show ?thesis
      by (auto simp: questions_try_def split: if_splits)
  qed
qed

lemma generate_interview_questions_cases:
  "generate_interview_questions send r j l u k =
     (case questions_try send r j l u k of
        (Inr qs, k1) \<Rightarrow> (Inr qs, k1)
      | (Inl (Exception e), k1) \<Rightarrow> (Inr (fst (except_fallback j u k1)), k1 + 3)
      | (Inl (BaseException e), k1) \<Rightarrow> (Inl (BaseException e), k1))"
  by (simp add: generate_interview_questions_def except_fallback_def
      split: prod.splits sum.splits exn.splits)

lemma questions_try_raises:
  "questions_try send r j l u k = (Inl e, k1) \<Longrightarrow>
   send (question_request (u k) r j l) = Inl e \<and> k1 = Suc k"
  by (auto simp: questions_try_def Let_def split: sum.splits prod.splits if_splits)

lemma generate_interview_questions_bounds:
  assumes "generate_interview_questions send r j l u k = (Inr qs, k')"
  shows "3 \<le> length qs \<and> length qs \<le> 7 \<and> k < k'"
proof (cases "questions_try send r j l u k")
  case (Pair res k1)
  show ?thesis
  proof (cases res)
    case (Inr ps)
    with Pair assms questions_try_bounds [of send r j l u k ps k1] show ?thesis
      by (simp add: generate_interview_questions_cases)
  next
    case (Inl e)
    with Pair questions_try_raises [of send r j l u k e k1] have k1: "k1 = Suc k" by simp
    from Pair Inl assms k1 show ?thesis
      by (cases e) (auto simp: generate_interview_questions_cases except_fallback_def)
  qed
qed

lemma generate_interview_questions_raises:
  assumes "generate_interview_questions send r j l u k = (Inl e, k')"
  shows "\<exists>b. e = BaseException b \<and> send (question_request (u k) r j l) = Inl (BaseException b) \<and>
             k' = Suc k"
proof (cases "questions_try send r j l u k")
  case (Pair res k1)
  show ?thesis
  proof (cases res)
    case (Inr ps)
    with Pair assms show ?thesis by (simp add: generate_interview_questions_cases)
  next
    case (Inl x)
    with Pair questions_try_raises [of send r j l u k x k1]
    have "send (question_request (u k) r j l) = Inl x" "k1 = Suc k" by simp_all
    with Pair Inl assms show ?thesis
      by (cases x) (auto simp: generate_interview_questions_cases)
  qed
qed

lemma generate_interview_questions_returns:
  assumes "\<forall>b. send (question_request (u k) r j l) \<noteq> Inl (BaseException b)"
  shows "\<exists>qs k'. generate_interview_questions send r j l u k = (Inr qs, k')"
proof (cases "generate_interview_questions send r j l u k")
  case (Pair res k')
  show ?thesis
  proof (cases res)
    case (Inr qs)
    with Pair show ?thesis by simp
  next
    case (Inl e)
    with Pair generate_interview_questions_raises [of send r j l u k e k'] assms
    show ?thesis by auto
  qed
qed

lemma update_one_keys:
  "(\<And>x. key (f x) = key x) \<Longrightarrow> map key (update_one P f xs) = map key xs"
  by (induction xs) auto

lemma update_one_length [simp]: "length (update_one P f xs) = length xs"
  by (induction xs) auto

lemma update_one_distinct:
  "distinct (map key xs) \<Longrightarrow>
   update_one (\<lambda>x. key x = a) f xs = map (\<lambda>x. if key x = a then f x else x) xs"
proof (induction xs)
  case Nil
  then show ?case by simp
next
  case (Cons d ds)
  show ?case
  proof (cases "key d = a")
    case True
    with Cons.prems have "\<forall>x\<in>set ds. key x \<noteq> a" by (auto simp: image_iff)
    then have "map (\<lambda>x. if key x = a then f x else x) ds = ds"
      by (induction ds) auto
    with True show ?thesis by simp
  next
    case False
    with Cons show ?thesis by simp
  qed
qed

lemma find_one_distinct:
  "distinct (map key xs) \<Longrightarrow> x \<in> set xs \<Longrightarrow> find_one (\<lambda>y. key y = key x) xs = Some x"
  unfolding find_one_def
proof (induction xs)
  case Nil
  then show ?case by simp
next
  case (Cons d ds)
  then show ?case by (cases "d = x") (auto simp: image_iff)
qed

lemma newest_None [simp]: "newest key xs = None \<longleftrightarrow> xs = []"
  by (induction xs) (auto split: option.splits)

lemma newest_mem: "newest key xs = Some b \<Longrightarrow> b \<in> set xs"
  by (induction xs arbitrary: b) (auto split: option.splits if_splits)


lemma find_one_sort_desc_Some:
  "find_one_sort_desc P key xs = Some b \<Longrightarrow> b \<in> set xs \<and> P b"
  using newest_mem [of key "filter P xs" b] by (simp add: find_one_sort_desc_def)

lemma find_one_sort_desc_None:
  "find_one_sort_desc P key xs = None \<longleftrightarrow> (\<forall>x\<in>set xs. \<not> P x)"
  by (simp add: find_one_sort_desc_def filter_empty_conv)


lemma replace_doc_ids: "map i_id (replace_doc new docs) = map i_id docs"
  by (induction docs) (auto simp: replace_doc_def)

lemma replace_doc_length [simp]: "length (replace_doc new docs) = length docs"
  by (simp add: replace_doc_def)

lemma push_response_simps [simp]:
  "i_id (push_response r x) = i_id x"
  "i_user_id (push_response r x) = i_user_id x"
  "i_status (push_response r x) = i_status x"
  "i_created_at (push_response r x) = i_created_at x"
  "i_questions (push_response r x) = i_questions x"
  "i_job_role (push_response r x) = i_job_role x"
  "i_feedback (push_response r x) = i_feedback x"
  "i_responses (push_response r x) = i_responses x @ [r]"
  by (simp_all add: push_response_def)

lemma set_completed_simps [simp]:
  "i_id (set_completed fb t x) = i_id x"
  "i_user_id (set_completed fb t x) = i_user_id x"
  "i_status (set_completed fb t x) = ''completed''"
  "i_created_at (set_completed fb t x) = i_created_at x"
  "i_questions (set_completed fb t x) = i_questions x"
  "i_responses (set_completed fb t x) = i_responses x"
  "i_feedback (set_completed fb t x) = Some fb"
  "i_completed_at (set_completed fb t x) = Some t"
  by (simp_all add: set_completed_def)

lemma update_one_replace:
  assumes "distinct (map i_id docs)" and "x \<in> set docs" and "i_id (f x) = i_id x"
  shows "update_one (\<lambda>y. i_id y = i_id x) f docs = replace_doc (f x) docs"
proof -
  have "\<And>y. y \<in> set docs \<Longrightarrow> i_id y = i_id x \<Longrightarrow> y = x"
    using assms(1,2) by (meson distinct_map inj_onD)
  then have "map (\<lambda>y. if i_id y = i_id x then f y else y) docs
           = map (\<lambda>y. if i_id y = i_id (f x) then f x else y) docs"
    using assms(3) by (intro map_cong) auto
  then show ?thesis
    using update_one_distinct [of i_id docs "i_id x" f] assms(1) by (simp add: replace_doc_def)
qed

lemma replace_doc_mem:
  "x \<in> set docs \<Longrightarrow> i_id new = i_id x \<Longrightarrow> new \<in> set (replace_doc new docs)"
  by (auto simp: replace_doc_def image_iff)

lemma generate_feedback_cases:
  "generate_feedback send qs rs j u k =
     (case send (feedback_request (u k) qs rs j) of
        Inr response \<Rightarrow> (Inr response, Suc k)
      | Inl (Exception e) \<Rightarrow> (Inr fallback_feedback, Suc k)
      | Inl (BaseException e) \<Rightarrow> (Inl (BaseException e), Suc k))"
  by (simp add: generate_feedback_def feedback_try_def split: sum.splits exn.splits)

lemma generate_feedback_count:
  "\<exists>out. generate_feedback send qs rs j u k = (out, Suc k) \<and>
         ((\<forall>b. send (feedback_request (u k) qs rs j) \<noteq> Inl (BaseException b)) \<longrightarrow>
            (\<exists>fb. out = Inr fb))"
  by (auto simp: generate_feedback_cases split: sum.splits exn.splits)

lemma submit_response_char:
  assumes dist: "distinct (map i_id (interviews d))"
    and found: "find_one_sort_desc (active_interview uid) i_created_at (interviews d) = Some iv"
  shows "\<exists>out. generate_feedback send (i_questions iv)
                 (i_responses iv @ [\<lparr>r_question_id = question_id r, r_answer = answer r, r_submitted_at = t1\<rparr>])
                 (i_job_role iv) u k = (out, Suc k) \<and>
          ((\<forall>b. send (feedback_request (u k) (i_questions iv)
                    (i_responses iv @ [\<lparr>r_question_id = question_id r, r_answer = answer r, r_submitted_at = t1\<rparr>])
                    (i_job_role iv)) \<noteq> Inl (BaseException b)) \<longrightarrow> (\<exists>fb. out = Inr fb)) \<and>
          submit_response send r uid t1 t2 u k d =
            (if length (i_questions iv) \<le> Suc (length (i_responses iv))
             then (case out of
                     Inr fb \<Rightarrow>
                       Inr (\<lparr>message = ''Interview completed!'', completed = True,
                             feedback = Some fb, next_question = None\<rparr>,
                            Suc k,
                            d\<lparr>interviews := replace_doc (set_completed fb t2
                                (push_response \<lparr>r_question_id = question_id r, r_answer = answer r, r_submitted_at = t1\<rparr> iv))
                                (interviews d)\<rparr>)
                   | Inl e \<Rightarrow>
                       Inl (Unhandled e
                            (Suc k,
                             d\<lparr>interviews := replace_doc
                                (push_response \<lparr>r_question_id = question_id r, r_answer = answer r, r_submitted_at = t1\<rparr> iv)
                                (interviews d)\<rparr>)))
             else Inr (\<lparr>message = ''Response recorded'', completed = False,
                        feedback = None, next_question = Some (Suc (length (i_responses iv)))\<rparr>,
                       k,
                       d\<lparr>interviews := replace_doc
                           (push_response \<lparr>r_question_id = question_id r, r_answer = answer r, r_submitted_at = t1\<rparr> iv)
                           (interviews d)\<rparr>))"
proof -
  define rd where "rd = \<lparr>r_question_id = question_id r, r_answer = answer r, r_submitted_at = t1\<rparr>"
  define iv1 where "iv1 = push_response rd iv"
  from found have mem: "iv \<in> set (interviews d)"
    by (auto dest: find_one_sort_desc_Some)
  have ivs1: "update_one (\<lambda>x. i_id x = i_id iv) (push_response rd) (interviews d)
                = replace_doc iv1 (interviews d)"
    unfolding iv1_def by (rule update_one_replace [OF dist mem]) simp
  have dist1: "distinct (map i_id (replace_doc iv1 (interviews d)))"
    using dist by (simp add: replace_doc_ids)
  have mem1: "iv1 \<in> set (replace_doc iv1 (interviews d))"
    by (rule replace_doc_mem [OF mem]) (simp add: iv1_def)
  have reread: "find_one (\<lambda>x. i_id x = i_id iv) (replace_doc iv1 (interviews d)) = Some iv1"
    using find_one_distinct [of i_id, OF dist1 mem1] by (simp add: iv1_def)
  obtain out where out: "generate_feedback send (i_questions iv) (i_responses iv @ [rd]) (i_job_role iv) u k = (out, Suc k)"
    and ret: "(\<forall>b. send (feedback_request (u k) (i_questions iv) (i_responses iv @ [rd])
                    (i_job_role iv)) \<noteq> Inl (BaseException b)) \<longrightarrow> (\<exists>fb. out = Inr fb)"
    using generate_feedback_count by blast
  have ivs2: "update_one (\<lambda>x. i_id x = i_id iv) (set_completed fb t2) (replace_doc iv1 (interviews d))
                = replace_doc (set_completed fb t2 iv1) (interviews d)" for fb
  proof -
    have "update_one (\<lambda>x. i_id x = i_id iv1) (set_completed fb t2) (replace_doc iv1 (interviews d))
            = replace_doc (set_completed fb t2 iv1) (replace_doc iv1 (interviews d))"
      by (rule update_one_replace [OF dist1 mem1]) simp
    moreover have "replace_doc (set_completed fb t2 iv1) (replace_doc iv1 (interviews d))
            = replace_doc (set_completed fb t2 iv1) (interviews d)"
      by (simp add: replace_doc_def iv1_def)
    ultimately show ?thesis by (simp add: iv1_def)
  qed
  have "submit_response send r uid t1 t2 u k d =
          (if length (i_questions iv) \<le> Suc (length (i_responses iv))
           then (case out of
                   Inr fb \<Rightarrow>
                     Inr (\<lparr>message = ''Interview completed!'', completed = True,
                           feedback = Some fb, next_question = None\<rparr>,
                          Suc k, d\<lparr>interviews := replace_doc (set_completed fb t2 iv1) (interviews d)\<rparr>)
                 | Inl e \<Rightarrow> Inl (Unhandled e (Suc k, d\<lparr>interviews := replace_doc iv1 (interviews d)\<rparr>)))
           else Inr (\<lparr>message = ''Response recorded'', completed = False,
                      feedback = None, next_question = Some (Suc (length (i_responses iv)))\<rparr>,
                     k, d\<lparr>interviews := replace_doc iv1 (interviews d)\<rparr>))"
  proof (cases out)
    case (Inr fb)
    with found ivs1 reread ivs2 [of fb] out show ?thesis
      by (simp add: submit_response_def rd_def [symmetric] iv1_def [symmetric] Let_def)
         (simp add: iv1_def)
  next
    case (Inl e)
    with found ivs1 reread out show ?thesis
      by (simp add: submit_response_def rd_def [symmetric] iv1_def [symmetric] Let_def)
         (simp add: iv1_def)
  qed
  with out ret show ?thesis
    unfolding rd_def iv1_def by blast
qed

lemma register_effect:
  "register codec h user t1 t2 u k d = Inr (reply, k', d') \<Longrightarrow>
   interviews d' = interviews d \<and> resumes d' = resumes d \<and> k' = Suc k"
  by (auto simp: register_def split: option.splits)

lemma upload_resume_effect:
  "upload_resume pdf_pages file uid t u k d = Inr (reply, k', d') \<Longrightarrow>
   interviews d' = interviews d \<and> k' = Suc k"
  by (auto simp: upload_resume_def split: if_splits sum.splits raised.splits)

lemma start_interview_effect:
  assumes "start_interview send req uid t u k d = Inr (reply, k', d')"
  shows "\<exists>qs k1. k < k1 \<and> k' = Suc k1 \<and> 3 \<le> length qs \<and> length qs \<le> 7 \<and>
           questions reply = qs \<and> total_questions reply = length qs \<and> interview_id reply = u k1 \<and>
           interviews d' = interviews d @
             [\<lparr>i_id = u k1, i_user_id = uid, i_job_role = job_role req,
               i_experience_level = experience_level req, i_interview_type = interview_type req,
               i_status = ''in_progress'', i_questions = qs, i_responses = [],
               i_feedback = None, i_created_at = t, i_completed_at = None\<rparr>]"
proof -
  from assms obtain resume where
    res: "find_one_sort_desc (\<lambda>x. rs_user_id x = uid) rs_uploaded_at (resumes d) = Some resume"
    by (auto simp: start_interview_def split: option.splits)
  with assms obtain qs k1 where gen: "generate_interview_questions send (rs_text_content resume)
        (job_role req) (experience_level req) u k = (Inr qs, k1)"
    by (auto simp: start_interview_def split: prod.splits sum.splits)
  from generate_interview_questions_bounds [OF gen]
  have b: "3 \<le> length qs" "length qs \<le> 7" "k < k1" by simp_all
  from assms res gen b show ?thesis
    by (auto simp: start_interview_def insert_one_def)
qed

lemma submit_response_effect:
  assumes dist: "distinct (map i_id (interviews d))"
    and sub: "submit_response send r uid t1 t2 u k d = Inr (reply, k', d')"
  shows "\<exists>iv new. find_one_sort_desc (active_interview uid) i_created_at (interviews d) = Some iv \<and>
           iv \<in> set (interviews d) \<and> active_interview uid iv \<and>
           d' = d\<lparr>interviews := replace_doc new (interviews d)\<rparr> \<and>
           i_id new = i_id iv \<and> i_user_id new = i_user_id iv \<and> i_questions new = i_questions iv \<and>
           i_responses new = i_responses iv @
              [\<lparr>r_question_id = question_id r, r_answer = answer r, r_submitted_at = t1\<rparr>] \<and>
           (if length (i_questions iv) \<le> Suc (length (i_responses iv))
            then completed reply \<and> next_question reply = None \<and> k' = Suc k \<and>
                 i_status new = ''completed'' \<and> i_feedback new = feedback reply \<and>
                 feedback reply \<noteq> None
            else \<not> completed reply \<and> feedback reply = None \<and> k' = k \<and>
                 next_question reply = Some (Suc (length (i_responses iv))) \<and>
                 i_status new = i_status iv \<and> i_feedback new = i_feedback iv)"
proof -
  define rd where "rd = \<lparr>r_question_id = question_id r, r_answer = answer r, r_submitted_at = t1\<rparr>"
  from sub obtain iv where
    found: "find_one_sort_desc (active_interview uid) i_created_at (interviews d) = Some iv"
    by (auto simp: submit_response_def split: option.splits)
  note mem = find_one_sort_desc_Some [OF found]
  from submit_response_char [OF dist found, of send r t1 u k t2] obtain out where
    eq0: "submit_response send r uid t1 t2 u k d =
            (if length (i_questions iv) \<le> Suc (length (i_responses iv))
             then (case out of
                     Inr fb \<Rightarrow>
                       Inr (\<lparr>message = ''Interview completed!'', completed = True,
                             feedback = Some fb, next_question = None\<rparr>,
                            Suc k, d\<lparr>interviews := replace_doc (set_completed fb t2 (push_response rd iv)) (interviews d)\<rparr>)
                   | Inl e \<Rightarrow>
                       Inl (Unhandled e (Suc k, d\<lparr>interviews := replace_doc (push_response rd iv) (interviews d)\<rparr>)))
             else Inr (\<lparr>message = ''Response recorded'', completed = False,
                        feedback = None, next_question = Some (Suc (length (i_responses iv)))\<rparr>,
                       k, d\<lparr>interviews := replace_doc (push_response rd iv) (interviews d)\<rparr>))"
    unfolding rd_def by blast
  with sub obtain fb where
    eq: "submit_response send r uid t1 t2 u k d =
            (if length (i_questions iv) \<le> Suc (length (i_responses iv))
             then Inr (\<lparr>message = ''Interview completed!'', completed = True,
                        feedback = Some fb, next_question = None\<rparr>,
                       Suc k, d\<lparr>interviews := replace_doc (set_completed fb t2 (push_response rd iv)) (interviews d)\<rparr>)
             else Inr (\<lparr>message = ''Response recorded'', completed = False,
                        feedback = None, next_question = Some (Suc (length (i_responses iv)))\<rparr>,
                       k, d\<lparr>interviews := replace_doc (push_response rd iv) (interviews d)\<rparr>))"
    by (cases out) (auto split: if_splits)
  show ?thesis
  proof (cases "length (i_questions iv) \<le> Suc (length (i_responses iv))")
    case True
    with eq sub have "reply = \<lparr>message = ''Interview completed!'', completed = True,
                        feedback = Some fb, next_question = None\<rparr>" "k' = Suc k"
        "d' = d\<lparr>interviews := replace_doc (set_completed fb t2 (push_response rd iv)) (interviews d)\<rparr>"
      by simp_all
    with found mem True show ?thesis
      by (intro exI [of _ iv] exI [of _ "set_completed fb t2 (push_response rd iv)"])
         (simp add: rd_def)
  next
    case False
    with eq sub have "reply = \<lparr>message = ''Response recorded'', completed = False,
                        feedback = None, next_question = Some (Suc (length (i_responses iv)))\<rparr>" "k' = k"
        "d' = d\<lparr>interviews := replace_doc (push_response rd iv) (interviews d)\<rparr>"
      by simp_all
    with found mem False show ?thesis
      by (intro exI [of _ iv] exI [of _ "push_response rd iv"]) (simp add: rd_def)
  qed
qed

lemma ids_drawn_mono:
  assumes "ids_drawn u k d" and "interviews d' = interviews d" and "k \<le> k'"
  shows "ids_drawn u k' d'"
proof -
  have "\<exists>n<k'. i_id iv = u n" if "iv \<in> set (interviews d)" for iv
  proof -
    from assms(1) that obtain n where "n < k" "i_id iv = u n"
      by (auto simp: ids_drawn_def)
    with assms(3) show ?thesis by (intro exI [of _ n]) simp
  qed
  with assms(1,2) show ?thesis by (simp add: ids_drawn_def)
qed

lemma set_replace_doc: "y \<in> set (replace_doc new docs) \<Longrightarrow> y = new \<or> y \<in> set docs"
  by (auto simp: replace_doc_def split: if_splits)

lemma ids_drawn_replace:
  assumes "ids_drawn u k d" and "iv \<in> set (interviews d)" and "i_id new = i_id iv" and "k \<le> k'"
  shows "ids_drawn u k' (d\<lparr>interviews := replace_doc new (interviews d)\<rparr>)"
proof -
  have "\<exists>n<k'. i_id y = u n" if "y \<in> set (replace_doc new (interviews d))" for y
  proof -
    from set_replace_doc [OF that] assms(2,3) obtain z where "z \<in> set (interviews d)" "i_id y = i_id z"
      by auto
    with assms(1) obtain n where "n < k" "i_id y = u n"
      by (auto simp: ids_drawn_def)
    with assms(4) show ?thesis by (intro exI [of _ n]) simp
  qed
  with assms(1) show ?thesis by (simp add: ids_drawn_def replace_doc_ids)
qed

lemma reachable_ids_drawn:
  assumes "inj u" and "reachable u s"
  shows "ids_drawn u (fst s) (snd s)"
  using assms(2)
proof (induction rule: reachable.induct)
  case reach_init
  show ?case by (simp add: ids_drawn_def empty_db_def)
next
  case (reach_register k d codec hash_password user t1 t2 reply k' d')
  from register_effect [OF reach_register.hyps(2)] reach_register.IH show ?case
    by (auto intro: ids_drawn_mono)
next
  case (reach_upload k d pdf_pages upl user_id t reply k' d')
  from upload_resume_effect [OF reach_upload.hyps(2)] reach_upload.IH show ?case
    by (auto intro: ids_drawn_mono)
next
  case (reach_start k d send_message request user_id t reply k' d')
  from start_interview_effect [OF reach_start.hyps(2)] obtain qs k1 new where
    e: "k < k1" "k' = Suc k1" "interviews d' = interviews d @ [new]" "i_id new = u k1"
    by force
  from reach_start.IH have old: "distinct (map i_id (interviews d))"
    "\<forall>iv\<in>set (interviews d). \<exists>n<k. i_id iv = u n"
    by (simp_all add: ids_drawn_def)
  have "u k1 \<notin> i_id ` set (interviews d)"
  proof
    assume "u k1 \<in> i_id ` set (interviews d)"
    then obtain iv n where "iv \<in> set (interviews d)" "n < k" "u k1 = u n"
      using old(2) by force
    with assms(1) e(1) show False by (auto dest: injD)
  qed
  moreover have "\<exists>n<k'. i_id iv = u n" if "iv \<in> set (interviews d')" for iv
  proof (cases "iv = new")
    case True
    with e show ?thesis by (intro exI [of _ k1]) simp
  next
    case False
    with that e(3) old(2) obtain n where "n < k" "i_id iv = u n" by auto
    with e(1,2) show ?thesis by (intro exI [of _ n]) simp
  qed
  ultimately show ?case using old(1) e by (simp add: ids_drawn_def)
next
  case (reach_submit k d send_message response user_id t1 t2 reply k' d')
  from reach_submit.IH have inv: "ids_drawn u k d" by simp
  then have dist: "distinct (map i_id (interviews d))" by (simp add: ids_drawn_def)
  from submit_response_effect [OF dist reach_submit.hyps(2)] obtain iv new where
    "iv \<in> set (interviews d)" "i_id new = i_id iv" "k \<le> k'"
    "d' = d\<lparr>interviews := replace_doc new (interviews d)\<rparr>"
    by (fastforce split: if_splits)
  with ids_drawn_replace [OF inv] show ?case by simp
qed

lemma reachable_distinct:
  "inj u \<Longrightarrow> reachable u (k, d) \<Longrightarrow> distinct (map i_id (interviews d))"
  using reachable_ids_drawn [of u "(k, d)"] by (simp add: ids_drawn_def)

lemma reachable_lifecycle:
  assumes "inj u" and "reachable u s"
  shows "\<forall>iv\<in>set (interviews (snd s)). lifecycle_ok iv"
  using assms(2)
proof (induction rule: reachable.induct)
  case reach_init
  show ?case by (simp add: empty_db_def)
next
  case (reach_register k d codec hash_password user t1 t2 reply k' d')
  from register_effect [OF reach_register.hyps(2)] reach_register.IH show ?case by simp
next
  case (reach_upload k d pdf_pages upl user_id t reply k' d')
  from upload_resume_effect [OF reach_upload.hyps(2)] reach_upload.IH show ?case by simp
next
  case (reach_start k d send_message request user_id t reply k' d')
  from start_interview_effect [OF reach_start.hyps(2)] reach_start.IH show ?case
    by (auto simp: lifecycle_ok_def)
next
  case (reach_submit k d send_message response user_id t1 t2 reply k' d')
  have dist: "distinct (map i_id (interviews d))"
    using reachable_distinct [OF assms(1) reach_submit.hyps(1)] .
  from submit_response_effect [OF dist reach_submit.hyps(2)] obtain iv new where
    iv: "iv \<in> set (interviews d)" "active_interview user_id iv"
    and d': "d' = d\<lparr>interviews := replace_doc new (interviews d)\<rparr>"
    and new: "i_questions new = i_questions iv" "length (i_responses new) = Suc (length (i_responses iv))"
      "if length (i_questions iv) \<le> Suc (length (i_responses iv))
       then i_status new = ''completed'' \<and> i_feedback new \<noteq> None
       else i_status new = i_status iv \<and> i_feedback new = i_feedback iv"
    by (fastforce split: if_splits)
  from reach_submit.IH have old: "\<forall>x\<in>set (interviews d). lifecycle_ok x" by simp
  with iv have lt: "length (i_responses iv) < length (i_questions iv)" "i_feedback iv = None"
      "i_status iv = ''in_progress''"
    by (auto simp: lifecycle_ok_def active_interview_def)
  have "lifecycle_ok new"
    using new lt by (auto simp: lifecycle_ok_def split: if_splits)
  with old d' show ?case by (auto dest!: set_replace_doc)
qed





lemma parse_questions_eq:
  "parse_questions xs u k =
     (map (\<lambda>(n, i, q). parsed_question (u n) i q)
        (zip [k..<k + length (filter (\<lambda>(i, q). keeps_line q) xs)] (filter (\<lambda>(i, q). keeps_line q) xs)),
      k + length (filter (\<lambda>(i, q). keeps_line q) xs))"
proof (induction xs arbitrary: k)
  case Nil
  show ?case by simp
next
  case (Cons x xs)
  obtain i q where x: "x = (i, q)" by (cases x)
  show ?case
  proof (cases "keeps_line q")
    case True
    then show ?thesis
      using Cons.IH [of "Suc k"] x by (simp add: upt_conv_Cons del: upt_Suc)
  next
    case False
    then show ?thesis using Cons.IH [of k] x by simp
  qed
qed

lemma kept_lines_length: "length (kept_lines response) \<le> 7"
proof -
  have "length (kept_lines response) \<le> length (enumerate_py (take 7 (split_py (CHR 0x0A) response)))"
    unfolding kept_lines_def by (rule length_filter_le)
  then show ?thesis by simp
qed

lemma generate_questions_parsed:
  assumes "send (question_request (u k) resume job level) = Inr response"
  shows "generate_interview_questions send resume job level u k =
     (if 3 \<le> length (kept_lines response)
      then (Inr (map (\<lambda>(n, i, q). parsed_question (u n) i q)
                  (zip [Suc k..<Suc k + length (kept_lines response)] (kept_lines response))),
            Suc k + length (kept_lines response))
      else (Inr (fst (parse_fallback job u (Suc k + length (kept_lines response)))),
            Suc k + length (kept_lines response) + 5))"
proof -
  obtain fb where fb: "parse_fallback job u (Suc k + length (kept_lines response)) =
      (fb, Suc k + length (kept_lines response) + 5)"
    using parse_fallback_eq by blast
  show ?thesis
    using assms fb
    by (simp add: generate_interview_questions_def questions_try_def parse_questions_eq
        kept_lines_def [symmetric] Let_def not_less [symmetric])
qed

lemma generate_questions_except:
  assumes "send (question_request (u k) resume job level) = Inl (Exception e)"
  shows "generate_interview_questions send resume job level u k =
           (Inr (fst (except_fallback job u (Suc k))), k + 4)"
  using assms
  by (simp add: generate_interview_questions_def questions_try_def except_fallback_def)

lemma inj_sample_uuid: "inj sample_uuid"
proof (rule injI)
  fix a b assume "sample_uuid a = sample_uuid b"
  then have "length (replicate a (CHR ''x'')) = length (replicate b (CHR ''x''))"
    by (simp add: sample_uuid_def)
  then show "a = b" by simp
qed

lemmas sample_defs = sample_pdf_def sample_file_def sample_request_def sample_answer_def
  sample_response_doc_def sample_resume_def first_interview_def first_interview_done_def
  second_interview_def db_uploaded_def db_with_def unavailable_def empty_db_def

lemmas handler_defs = upload_resume_def extract_text_from_pdf_def endswith_def insert_one_def
  start_interview_def find_one_sort_desc_def generate_interview_questions_def questions_try_def
  except_fallback_def submit_response_def active_interview_def find_one_def push_response_def
  set_completed_def generate_feedback_def feedback_try_def

lemma sample_step_upload:
  "\<exists>reply. upload_resume sample_pdf sample_file ''alice'' 10 sample_uuid 0 empty_db
             = Inr (reply, 1, db_uploaded)"
  by (simp add: sample_defs handler_defs)

lemma sample_step_start:
  "\<exists>reply. start_interview unavailable sample_request ''alice'' 20 sample_uuid 1 db_uploaded
             = Inr (reply, 6, db_with [first_interview])"
  by (simp add: sample_defs handler_defs eval_nat_numeral)

lemma sample_step_submit1:
  "\<exists>reply. submit_response unavailable sample_answer ''alice'' 30 0 sample_uuid 6 (db_with [first_interview])
             = Inr (reply, 6, db_with [first_interview\<lparr>i_responses := [sample_response_doc 30]\<rparr>])"
  by (simp add: sample_defs handler_defs)

lemma sample_step_submit2:
  "\<exists>reply. submit_response unavailable sample_answer ''alice'' 31 0 sample_uuid 6
               (db_with [first_interview\<lparr>i_responses := [sample_response_doc 30]\<rparr>])
             = Inr (reply, 6, db_with [first_interview\<lparr>i_responses := [sample_response_doc 30, sample_response_doc 31]\<rparr>])"
  by (simp add: sample_defs handler_defs)

lemma sample_step_submit3:
  "submit_response unavailable sample_answer ''alice'' 32 33 sample_uuid 6
               (db_with [first_interview\<lparr>i_responses := [sample_response_doc 30, sample_response_doc 31]\<rparr>])
             = Inr (\<lparr>message = ''Interview completed!'', completed = True,
                      feedback = Some fallback_feedback, next_question = None\<rparr>,
                    7, db_with [first_interview_done])"
  by (simp add: sample_defs handler_defs)

lemma sample_step_start2:
  "\<exists>reply. start_interview unavailable sample_request ''alice'' 50 sample_uuid 7 (db_with [first_interview_done])
             = Inr (reply, 12, db_with [first_interview_done, second_interview])"
  by (simp add: sample_defs handler_defs eval_nat_numeral)

lemma sample_reachable: "reachable sample_uuid (12, db_with [first_interview_done, second_interview])"
proof -
  have "reachable sample_uuid (1, db_uploaded)"
    using sample_step_upload reach_init [of sample_uuid] by (blast intro: reach_upload)
  then have "reachable sample_uuid (6, db_with [first_interview])"
    using sample_step_start by (blast intro: reach_start)
  then have "reachable sample_uuid (6, db_with [first_interview\<lparr>i_responses := [sample_response_doc 30]\<rparr>])"
    using sample_step_submit1 by (blast intro: reach_submit)
  then have "reachable sample_uuid (6, db_with [first_interview\<lparr>i_responses := [sample_response_doc 30, sample_response_doc 31]\<rparr>])"
    using sample_step_submit2 by (blast intro: reach_submit)
  then have "reachable sample_uuid (7, db_with [first_interview_done])"
    using sample_step_submit3 by (blast intro: reach_submit)
  then show ?thesis
    using sample_step_start2 by (blast intro: reach_start)
qed

lemma sample_uuid_eq: "sample_uuid a = sample_uuid b \<longleftrightarrow> a = b"
  using inj_sample_uuid by (auto dest: injD)

lemma sample_step_submit4:
  "\<exists>reply. submit_response unavailable sample_answer ''alice'' 60 0 sample_uuid 12
               (db_with [first_interview_done, second_interview])
             = Inr (reply, 12, db_with [first_interview_done,
                      second_interview\<lparr>i_responses := [sample_response_doc 60]\<rparr>])"
  by (simp add: sample_defs handler_defs sample_uuid_eq)

lemma sample_step_submit5:
  "\<exists>reply. submit_response unavailable sample_answer ''alice'' 61 0 sample_uuid 12
               (db_with [first_interview_done,
                  second_interview\<lparr>i_responses := [sample_response_doc 60]\<rparr>])
             = Inr (reply, 12, db_with [first_interview_done, second_interview_two])"
  by (simp add: sample_defs handler_defs second_interview_two_def sample_uuid_eq)

lemma sample_reachable_two:
  "reachable sample_uuid (12, db_with [first_interview_done, second_interview_two])"
proof -
  have "reachable sample_uuid (12, db_with [first_interview_done,
          second_interview\<lparr>i_responses := [sample_response_doc 60]\<rparr>])"
    using sample_step_submit4 sample_reachable by (blast intro: reach_submit)
  then show ?thesis
    using sample_step_submit5 by (blast intro: reach_submit)
qed

lemma sample_distinct:
  "distinct (map i_id (interviews (db_with [first_interview_done, second_interview_two])))"
  by (simp add: sample_defs second_interview_two_def sample_uuid_eq)


lemma sample_step_complete:
  "submit_response unavailable sample_answer ''alice'' 62 63 sample_uuid 12
     (db_with [first_interview_done, second_interview_two])
   = Inr (\<lparr>message = ''Interview completed!'', completed = True,
            feedback = Some fallback_feedback, next_question = None\<rparr>,
          13, db_with [first_interview_done, second_interview_done])"
  by (simp add: sample_defs handler_defs second_interview_two_def second_interview_done_def
      sample_uuid_eq)

lemma no_active_interview:
  assumes "\<forall>x\<in>set (interviews d). \<not> (i_user_id x = uid \<and> i_status x = ''in_progress'')"
  shows "submit_response send r uid t1 t2 u k d = Inl (HTTPException 404 ''No active interview found'')"
proof -
  from assms have "find_one_sort_desc (active_interview uid) i_created_at (interviews d) = None"
    by (simp add: find_one_sort_desc_None active_interview_def)
  then show ?thesis by (simp add: submit_response_def)
qed

lemma sample_start_again:
  "\<exists>reply d'. start_interview unavailable sample_request ''alice'' 80 sample_uuid 12
       (db_with [first_interview_done, second_interview_two]) = Inr (reply, 17, d')"
  by (simp add: sample_defs handler_defs eval_nat_numeral)


lemma sample_register:
  "\<exists>reply d'. register sample_codec sample_hash sample_user 82 83 sample_uuid 12
       (db_with [first_interview_done, second_interview_two]) = Inr (reply, 13, d')"
  by (simp add: sample_defs register_def find_one_def insert_one_def uuid4_def)

section \<open>The properties\<close>

text \<open>
  C10, as stated: for every outcome of the external generation call, failure included,
  the Question Generator returns a list of between 3 and 7 questions. A call that is
  cancelled raises outside \<open>Exception\<close>; the handler \<open>except Exception\<close> does not catch
  it, and the generator raises it in turn and returns no list.
\<close>

theorem cancelled_call_returns_no_questions_counterexample:
  "generate_interview_questions cancelled ''cv'' ''Engineer'' ''mid'' sample_uuid 0
     = (Inl (BaseException ''CancelledError''), 1)"
  by (simp add: generate_interview_questions_def questions_try_def cancelled_def)

text \<open>
  C10, amended: for every input and every outcome of the external generation call that
  is a reply or a failure derived from \<open>Exception\<close>, the Question Generator returns a
  list of at least 3 and at most 7 questions, and whenever it returns at all its list has
  between 3 and 7 questions. In particular it never returns an empty list, so an
  interview that \<open>start_interview\<close> creates has between 3 and 7 questions and no
  response, and is not complete at creation.
\<close>

theorem question_count_bounds:
  "((\<forall>b. send (question_request (u k) resume job level) \<noteq> Inl (BaseException b)) \<longrightarrow>
      (\<exists>qs k'. generate_interview_questions send resume job level u k = (Inr qs, k') \<and>
               3 \<le> length qs \<and> length qs \<le> 7)) \<and>
   (generate_interview_questions send1 resume1 job1 level1 u1 k1 = (Inr qs1, k1') \<longrightarrow>
      3 \<le> length qs1 \<and> length qs1 \<le> 7) \<and>
   (start_interview send0 req uid t u0 k0 d = Inr (reply, k2, d2) \<longrightarrow>
      (\<exists>new. interviews d2 = interviews d @ [new] \<and> i_questions new = questions reply \<and>
             3 \<le> length (i_questions new) \<and> length (i_questions new) \<le> 7 \<and>
             i_responses new = [] \<and> length (i_responses new) < length (i_questions new) \<and>
             i_status new = ''in_progress''))"
proof (intro conjI impI)
  assume "\<forall>b. send (question_request (u k) resume job level) \<noteq> Inl (BaseException b)"
  from generate_interview_questions_returns [where send = send and u = u and k = k, OF this]
  obtain qs k' where
    gen: "generate_interview_questions send resume job level u k = (Inr qs, k')"
    by blast
  from generate_interview_questions_bounds [OF gen] gen
  show "\<exists>qs k'. generate_interview_questions send resume job level u k = (Inr qs, k') \<and>
                  3 \<le> length qs \<and> length qs \<le> 7"
    by blast
next
  assume "generate_interview_questions send1 resume1 job1 level1 u1 k1 = (Inr qs1, k1')"
  from generate_interview_questions_bounds [OF this]
  show "3 \<le> length qs1" and "length qs1 \<le> 7" by simp_all
next
  assume "start_interview send0 req uid t u0 k0 d = Inr (reply, k2, d2)"
  from start_interview_effect [OF this] obtain qs k3 where
    "3 \<le> length qs" "length qs \<le> 7" "questions reply = qs"
    "interviews d2 = interviews d @
       [\<lparr>i_id = u0 k3, i_user_id = uid, i_job_role = job_role req,
         i_experience_level = experience_level req, i_interview_type = interview_type req,
         i_status = ''in_progress'', i_questions = qs, i_responses = [],
         i_feedback = None, i_created_at = t, i_completed_at = None\<rparr>]"
    by blast
  then show "\<exists>new. interviews d2 = interviews d @ [new] \<and> i_questions new = questions reply \<and>
             3 \<le> length (i_questions new) \<and> length (i_questions new) \<le> 7 \<and>
             i_responses new = [] \<and> length (i_responses new) < length (i_questions new) \<and>
             i_status new = ''in_progress''"
    by auto
qed

theorem question_count_bounds_witness:
  "(\<forall>b. replies_with sample_reply (question_request (sample_uuid 0) ''cv'' ''Engineer'' ''mid'')
          \<noteq> Inl (BaseException b)) \<and>
   (\<exists>qs k'. generate_interview_questions (replies_with sample_reply) ''cv'' ''Engineer'' ''mid'' sample_uuid 0
               = (Inr qs, k') \<and> 3 \<le> length qs \<and> length qs \<le> 7) \<and>
   generate_interview_questions unavailable ''cv'' ''Engineer'' ''mid'' sample_uuid 1
     = (Inr (fst (except_fallback ''Engineer'' sample_uuid 2)), 5) \<and>
   3 \<le> length (fst (except_fallback ''Engineer'' sample_uuid 2)) \<and>
   length (fst (except_fallback ''Engineer'' sample_uuid 2)) \<le> 7 \<and>
   start_interview unavailable sample_request ''alice'' 20 sample_uuid 1 db_uploaded
     = Inr (\<lparr>interview_id = sample_uuid 5,
              questions = fst (except_fallback ''Engineer'' sample_uuid 2),
              total_questions = 3\<rparr>, 6, db_with [first_interview]) \<and>
   (\<exists>new. interviews (db_with [first_interview]) = interviews db_uploaded @ [new] \<and>
          3 \<le> length (i_questions new) \<and> length (i_questions new) \<le> 7 \<and>
          i_responses new = [] \<and> i_status new = ''in_progress'')"
proof -
  have ret: "\<forall>b. replies_with sample_reply (question_request (sample_uuid 0) ''cv'' ''Engineer'' ''mid'')
          \<noteq> Inl (BaseException b)"
    by (simp add: replies_with_def)
  have gen: "generate_interview_questions unavailable ''cv'' ''Engineer'' ''mid'' sample_uuid 1
     = (Inr (fst (except_fallback ''Engineer'' sample_uuid 2)), 5)"
    by (simp add: generate_interview_questions_def questions_try_def except_fallback_def
        unavailable_def numeral_2_eq_2)
  have step: "start_interview unavailable sample_request ''alice'' 20 sample_uuid 1 db_uploaded
     = Inr (\<lparr>interview_id = sample_uuid 5,
              questions = fst (except_fallback ''Engineer'' sample_uuid 2),
              total_questions = 3\<rparr>, 6, db_with [first_interview])"
    by (simp add: sample_defs handler_defs eval_nat_numeral)
  note inst = question_count_bounds [of "replies_with sample_reply" sample_uuid 0 "''cv''"
      "''Engineer''" "''mid''" unavailable "''cv''" "''Engineer''" "''mid''" sample_uuid 1
      "fst (except_fallback ''Engineer'' sample_uuid 2)" 5
      unavailable sample_request "''alice''" 20 sample_uuid 1 db_uploaded
      "\<lparr>interview_id = sample_uuid 5,
              questions = fst (except_fallback ''Engineer'' sample_uuid 2),
              total_questions = 3\<rparr>" 6 "db_with [first_interview]"]
  from inst ret have a: "\<exists>qs k'. generate_interview_questions (replies_with sample_reply) ''cv''
      ''Engineer'' ''mid'' sample_uuid 0 = (Inr qs, k') \<and> 3 \<le> length qs \<and> length qs \<le> 7"
    by blast
  from inst gen have b: "3 \<le> length (fst (except_fallback ''Engineer'' sample_uuid 2))"
    "length (fst (except_fallback ''Engineer'' sample_uuid 2)) \<le> 7"
    by blast+
  from inst step have c: "\<exists>new. interviews (db_with [first_interview]) = interviews db_uploaded @ [new] \<and>
          3 \<le> length (i_questions new) \<and> length (i_questions new) \<le> 7 \<and>
          i_responses new = [] \<and> i_status new = ''in_progress''"
    by blast
  from ret a gen b step c show ?thesis by (intro conjI)
qed

text \<open>
  C4, as stated: neither generator ever lets a failure of the external generation call
  reach its caller; whenever the call raises, the generator returns its fallback and never
  raises. Both handlers are \<open>except Exception\<close>: when the awaited call is cancelled
  (\<open>asyncio.CancelledError\<close>, outside \<open>Exception\<close>) both generators raise it in turn.
\<close>

theorem generators_propagate_cancellation_counterexample:
  "fst (generate_interview_questions cancelled ''cv'' ''Engineer'' ''mid'' sample_uuid 1)
     = Inl (BaseException ''CancelledError'') \<and>
   fst (generate_feedback cancelled (i_questions first_interview) [sample_response_doc 30]
          ''Engineer'' sample_uuid 6) = Inl (BaseException ''CancelledError'')"
  by (simp add: generate_interview_questions_def questions_try_def generate_feedback_def
      feedback_try_def cancelled_def)

text \<open>
  C4, amended: neither generator lets a failure of the external generation call that is
  derived from \<open>Exception\<close> reach its caller. For every input, if the external call
  raises such an exception, the Question Generator returns the three template questions
  of its handler and the Feedback Generator returns the fixed acknowledgment text; so
  both return a result and do not raise whenever the call returns or fails in that way.
  A raise outside \<open>Exception\<close> is not caught and leaves the generator.
\<close>

theorem generators_catch_exceptions:
  "(send (question_request (u k) resume job level) = Inl (Exception e) \<longrightarrow>
      generate_interview_questions send resume job level u k
        = (Inr (fst (except_fallback job u (Suc k))), k + 4)) \<and>
   (send0 (feedback_request (u0 k0) qs0 rs0 job0) = Inl (Exception e0) \<longrightarrow>
      generate_feedback send0 qs0 rs0 job0 u0 k0 = (Inr fallback_feedback, Suc k0)) \<and>
   ((\<forall>b. send (question_request (u k) resume job level) \<noteq> Inl (BaseException b)) \<longrightarrow>
      (\<exists>qs k'. generate_interview_questions send resume job level u k = (Inr qs, k'))) \<and>
   ((\<forall>b. send0 (feedback_request (u0 k0) qs0 rs0 job0) \<noteq> Inl (BaseException b)) \<longrightarrow>
      (\<exists>fb. generate_feedback send0 qs0 rs0 job0 u0 k0 = (Inr fb, Suc k0))) \<and>
   (send1 (question_request (u1 k1) resume1 job1 level1) = Inl (BaseException b1) \<longrightarrow>
      generate_interview_questions send1 resume1 job1 level1 u1 k1
        = (Inl (BaseException b1), Suc k1)) \<and>
   (send2 (feedback_request (u2 k2) qs2 rs2 job2) = Inl (BaseException b2) \<longrightarrow>
      generate_feedback send2 qs2 rs2 job2 u2 k2 = (Inl (BaseException b2), Suc k2))"
proof (intro conjI impI)
  assume "send (question_request (u k) resume job level) = Inl (Exception e)"
  then show "generate_interview_questions send resume job level u k
        = (Inr (fst (except_fallback job u (Suc k))), k + 4)"
    by (rule generate_questions_except)
next
  assume "send0 (feedback_request (u0 k0) qs0 rs0 job0) = Inl (Exception e0)"
  then show "generate_feedback send0 qs0 rs0 job0 u0 k0 = (Inr fallback_feedback, Suc k0)"
    by (simp add: generate_feedback_cases)
next
  assume "\<forall>b. send (question_request (u k) resume job level) \<noteq> Inl (BaseException b)"
  then show "\<exists>qs k'. generate_interview_questions send resume job level u k = (Inr qs, k')"
    by (rule generate_interview_questions_returns)
next
  assume "\<forall>b. send0 (feedback_request (u0 k0) qs0 rs0 job0) \<noteq> Inl (BaseException b)"
  with generate_feedback_count [of send0 qs0 rs0 job0 u0 k0]
  show "\<exists>fb. generate_feedback send0 qs0 rs0 job0 u0 k0 = (Inr fb, Suc k0)"
    by auto
next
  assume "send1 (question_request (u1 k1) resume1 job1 level1) = Inl (BaseException b1)"
  then show "generate_interview_questions send1 resume1 job1 level1 u1 k1
        = (Inl (BaseException b1), Suc k1)"
    by (simp add: generate_interview_questions_def questions_try_def)
next
  assume "send2 (feedback_request (u2 k2) qs2 rs2 job2) = Inl (BaseException b2)"
  then show "generate_feedback send2 qs2 rs2 job2 u2 k2 = (Inl (BaseException b2), Suc k2)"
    by (simp add: generate_feedback_cases)
qed

theorem generators_catch_exceptions_witness:
  "unavailable (question_request (sample_uuid 1) ''cv'' ''Engineer'' ''mid'')
     = Inl (Exception ''service unavailable'') \<and>
   unavailable (feedback_request (sample_uuid 6) (i_questions first_interview)
       [sample_response_doc 30] ''Engineer'') = Inl (Exception ''service unavailable'') \<and>
   generate_interview_questions unavailable ''cv'' ''Engineer'' ''mid'' sample_uuid 1
     = (Inr (fst (except_fallback ''Engineer'' sample_uuid 2)), 5) \<and>
   generate_feedback unavailable (i_questions first_interview) [sample_response_doc 30]
       ''Engineer'' sample_uuid 6 = (Inr fallback_feedback, 7) \<and>
   cancelled (question_request (sample_uuid 1) ''cv'' ''Engineer'' ''mid'')
     = Inl (BaseException ''CancelledError'') \<and>
   cancelled (feedback_request (sample_uuid 6) (i_questions first_interview)
       [sample_response_doc 30] ''Engineer'') = Inl (BaseException ''CancelledError'') \<and>
   generate_interview_questions cancelled ''cv'' ''Engineer'' ''mid'' sample_uuid 1
     = (Inl (BaseException ''CancelledError''), 2) \<and>
   generate_feedback cancelled (i_questions first_interview) [sample_response_doc 30]
       ''Engineer'' sample_uuid 6 = (Inl (BaseException ''CancelledError''), 7)"
proof -
  have q: "unavailable (question_request (sample_uuid 1) ''cv'' ''Engineer'' ''mid'')
     = Inl (Exception ''service unavailable'')"
    by (simp add: unavailable_def)
  have f: "unavailable (feedback_request (sample_uuid 6) (i_questions first_interview)
       [sample_response_doc 30] ''Engineer'') = Inl (Exception ''service unavailable'')"
    by (simp add: unavailable_def)
  have cq: "cancelled (question_request (sample_uuid 1) ''cv'' ''Engineer'' ''mid'')
     = Inl (BaseException ''CancelledError'')"
    by (simp add: cancelled_def)
  have cf: "cancelled (feedback_request (sample_uuid 6) (i_questions first_interview)
       [sample_response_doc 30] ''Engineer'') = Inl (BaseException ''CancelledError'')"
    by (simp add: cancelled_def)
  note inst = generators_catch_exceptions [where send = unavailable and u = sample_uuid and k = 1
      and resume = "''cv''" and job = "''Engineer''" and level = "''mid''"
      and e = "''service unavailable''"
      and ?send0.0 = unavailable and ?u0.0 = sample_uuid and ?k0.0 = 6
      and ?qs0.0 = "i_questions first_interview" and ?rs0.0 = "[sample_response_doc 30]"
      and ?job0.0 = "''Engineer''" and ?e0.0 = "''service unavailable''"
      and ?send1.0 = cancelled and ?u1.0 = sample_uuid and ?k1.0 = 1
      and ?resume1.0 = "''cv''" and ?job1.0 = "''Engineer''" and ?level1.0 = "''mid''"
      and ?b1.0 = "''CancelledError''"
      and ?send2.0 = cancelled and ?u2.0 = sample_uuid and ?k2.0 = 6
      and ?qs2.0 = "i_questions first_interview" and ?rs2.0 = "[sample_response_doc 30]"
      and ?job2.0 = "''Engineer''" and ?b2.0 = "''CancelledError''"]
  from inst q have a: "generate_interview_questions unavailable ''cv'' ''Engineer'' ''mid'' sample_uuid 1
     = (Inr (fst (except_fallback ''Engineer'' sample_uuid (Suc 1))), 1 + 4)"
    by blast
  from inst f have b: "generate_feedback unavailable (i_questions first_interview)
      [sample_response_doc 30] ''Engineer'' sample_uuid 6 = (Inr fallback_feedback, Suc 6)"
    by blast
  from inst cq have c: "generate_interview_questions cancelled ''cv'' ''Engineer'' ''mid'' sample_uuid 1
     = (Inl (BaseException ''CancelledError''), Suc 1)"
    by blast
  from inst cf have d: "generate_feedback cancelled (i_questions first_interview)
      [sample_response_doc 30] ''Engineer'' sample_uuid 6 = (Inl (BaseException ''CancelledError''), Suc 6)"
    by blast
  from a b c d q f cq cf show ?thesis by (simp add: numeral_2_eq_2)
qed



text \<open>
  C5: the completed state is terminal. A \<open>submit_response\<close> call that succeeds has
  matched an interview of the caller whose status is \<open>in_progress\<close>, and it leaves every
  completed interview as it was. When the caller has no in-progress interview the call
  fails with 404 \<open>No active interview found\<close>; so does every call of that caller that
  follows a completing call, when the completed interview was the caller's only open one.
\<close>

theorem completed_is_terminal:
  assumes "distinct (map i_id (interviews d))"
  shows "(submit_response send r uid t1 t2 u k d = Inr (reply, k', d') \<longrightarrow>
            (\<exists>iv new. iv \<in> set (interviews d) \<and> i_user_id iv = uid \<and>
                 i_status iv = ''in_progress'' \<and> i_id new = i_id iv \<and>
                 interviews d' = replace_doc new (interviews d) \<and>
                 (\<forall>x\<in>set (interviews d). i_status x = ''completed'' \<longrightarrow> x \<in> set (interviews d')))) \<and>
         ((\<forall>x\<in>set (interviews d0). \<not> (i_user_id x = uid0 \<and> i_status x = ''in_progress'')) \<longrightarrow>
            submit_response send0 r0 uid0 t3 t4 u0 k0 d0
              = Inl (HTTPException 404 ''No active interview found'')) \<and>
         (submit_response send r uid t1 t2 u k d = Inr (reply, k', d') \<and> completed reply \<and>
            length (filter (active_interview uid) (interviews d)) = 1 \<longrightarrow>
            submit_response send1 r1 uid t5 t6 u1 k1 d'
              = Inl (HTTPException 404 ''No active interview found''))"
proof (intro conjI impI)
  assume sub: "submit_response send r uid t1 t2 u k d = Inr (reply, k', d')"
  from submit_response_effect [OF assms sub] obtain iv new where
    iv: "iv \<in> set (interviews d)" "active_interview uid iv"
    and d': "d' = d\<lparr>interviews := replace_doc new (interviews d)\<rparr>"
    and new: "i_id new = i_id iv"
    by blast
  have "x \<in> set (interviews d')" if x: "x \<in> set (interviews d)" "i_status x = ''completed''" for x
  proof -
    have "i_id x \<noteq> i_id iv"
    proof
      assume "i_id x = i_id iv"
      with assms x(1) iv(1) have "x = iv" by (meson distinct_map inj_onD)
      with x(2) iv(2) show False by (simp add: active_interview_def)
    qed
    with x(1) new d' show ?thesis by (auto simp: replace_doc_def image_iff)
  qed
  with iv d' new show "\<exists>iv new. iv \<in> set (interviews d) \<and> i_user_id iv = uid \<and>
                 i_status iv = ''in_progress'' \<and> i_id new = i_id iv \<and>
                 interviews d' = replace_doc new (interviews d) \<and>
                 (\<forall>x\<in>set (interviews d). i_status x = ''completed'' \<longrightarrow> x \<in> set (interviews d'))"
    by (intro exI [of _ iv] exI [of _ new]) (simp add: active_interview_def)
next
  assume "\<forall>x\<in>set (interviews d0). \<not> (i_user_id x = uid0 \<and> i_status x = ''in_progress'')"
  then show "submit_response send0 r0 uid0 t3 t4 u0 k0 d0
              = Inl (HTTPException 404 ''No active interview found'')"
    by (rule no_active_interview)
next
  assume a: "submit_response send r uid t1 t2 u k d = Inr (reply, k', d') \<and> completed reply \<and>
            length (filter (active_interview uid) (interviews d)) = 1"
  from submit_response_effect [OF assms conjunct1 [OF a]] a obtain iv new where
    iv: "iv \<in> set (interviews d)" "active_interview uid iv"
    and d': "d' = d\<lparr>interviews := replace_doc new (interviews d)\<rparr>"
    and new: "i_id new = i_id iv" "i_status new = ''completed''"
    by (fastforce split: if_splits)
  from a obtain z where z: "filter (active_interview uid) (interviews d) = [z]"
    by (auto simp: length_Suc_conv)
  have only: "y = iv" if "y \<in> set (interviews d)" "active_interview uid y" for y
  proof -
    from that iv have "y \<in> set (filter (active_interview uid) (interviews d))"
      "iv \<in> set (filter (active_interview uid) (interviews d))" by simp_all
    with z show ?thesis by simp
  qed
  have "\<not> (i_user_id y = uid \<and> i_status y = ''in_progress'')" if y: "y \<in> set (interviews d')" for y
  proof (cases "y = new")
    case True
    with new show ?thesis by simp
  next
    case False
    with y d' have "y \<in> set (interviews d)" "i_id y \<noteq> i_id new"
      by (auto simp: replace_doc_def split: if_splits)
    with only [of y] new show ?thesis by (auto simp: active_interview_def)
  qed
  then show "submit_response send1 r1 uid t5 t6 u1 k1 d'
              = Inl (HTTPException 404 ''No active interview found'')"
    by (intro no_active_interview) blast
qed

theorem completed_is_terminal_witness:
  "distinct (map i_id (interviews (db_with [first_interview_done, second_interview_two]))) \<and>
   submit_response unavailable sample_answer ''alice'' 62 63 sample_uuid 12
       (db_with [first_interview_done, second_interview_two])
     = Inr (\<lparr>message = ''Interview completed!'', completed = True,
              feedback = Some fallback_feedback, next_question = None\<rparr>,
            13, db_with [first_interview_done, second_interview_done]) \<and>
   length (filter (active_interview ''alice'')
       (interviews (db_with [first_interview_done, second_interview_two]))) = 1 \<and>
   i_status first_interview_done = ''completed'' \<and>
   first_interview_done \<in> set (interviews (db_with [first_interview_done, second_interview_done])) \<and>
   filter (\<lambda>x. i_user_id x = ''alice'' \<and> i_status x = ''in_progress'')
       (interviews (db_with [first_interview_done])) = [] \<and>
   submit_response unavailable sample_answer ''alice'' 40 41 sample_uuid 7
       (db_with [first_interview_done]) = Inl (HTTPException 404 ''No active interview found'') \<and>
   submit_response unavailable sample_answer ''alice'' 70 71 sample_uuid 13
       (db_with [first_interview_done, second_interview_done])
     = Inl (HTTPException 404 ''No active interview found'')"
proof -
  have one: "length (filter (active_interview ''alice'')
       (interviews (db_with [first_interview_done, second_interview_two]))) = 1"
    by (simp add: sample_defs second_interview_two_def active_interview_def)
  have none: "\<forall>x\<in>set (interviews (db_with [first_interview_done])).
       \<not> (i_user_id x = ''alice'' \<and> i_status x = ''in_progress'')"
    by (simp add: sample_defs)
  have fin: "i_status first_interview_done = ''completed''"
    "first_interview_done \<in> set (interviews (db_with [first_interview_done, second_interview_two]))"
    by (simp_all add: sample_defs)
  note inst = completed_is_terminal [OF sample_distinct,
      of unavailable sample_answer "''alice''" 62 63 sample_uuid 12
         "\<lparr>message = ''Interview completed!'', completed = True,
              feedback = Some fallback_feedback, next_question = None\<rparr>"
         13 "db_with [first_interview_done, second_interview_done]"
         "db_with [first_interview_done]" "''alice''" unavailable sample_answer 40 41 sample_uuid 7
         unavailable sample_answer 70 71 sample_uuid 13]
  from inst sample_step_complete fin have kept:
    "first_interview_done \<in> set (interviews (db_with [first_interview_done, second_interview_done]))"
    by blast
  from inst none have fail0: "submit_response unavailable sample_answer ''alice'' 40 41 sample_uuid 7
       (db_with [first_interview_done]) = Inl (HTTPException 404 ''No active interview found'')"
    by blast
  from inst sample_step_complete one have fail1:
    "submit_response unavailable sample_answer ''alice'' 70 71 sample_uuid 13
       (db_with [first_interview_done, second_interview_done])
     = Inl (HTTPException 404 ''No active interview found'')"
    by simp
  have none': "filter (\<lambda>x. i_user_id x = ''alice'' \<and> i_status x = ''in_progress'')
       (interviews (db_with [first_interview_done])) = []"
    by (simp add: sample_defs)
  from sample_distinct sample_step_complete one fin(1) kept none' fail0 fail1
  show ?thesis by (intro conjI)
qed



text \<open>
  C6: in every state that sequential calls of the handlers reach (calls that return
  their reply, the identifier source never repeating a value), an interview has feedback if and only if its status is
  \<open>completed\<close>. \<open>start_interview\<close> adds one interview, in progress and without feedback,
  and \<open>submit_response\<close> changes one interview only; where it changes the feedback or the
  status it does both: the interview was in progress without feedback and is afterwards
  completed with the feedback that the reply carries.
\<close>

theorem feedback_iff_completed:
  assumes "inj u" and "reachable u (k, d)"
  shows "(\<forall>iv\<in>set (interviews d). (i_feedback iv \<noteq> None) = (i_status iv = ''completed'')) \<and>
         (start_interview send0 req uid0 t0 u k d = Inr (reply0, k0, d0) \<longrightarrow>
            (\<exists>new. interviews d0 = interviews d @ [new] \<and> i_status new = ''in_progress'' \<and>
                   i_feedback new = None)) \<and>
         (submit_response send r uid t1 t2 u k d = Inr (reply, k', d') \<longrightarrow>
            (\<exists>iv new. iv \<in> set (interviews d) \<and> i_id new = i_id iv \<and>
                 interviews d' = replace_doc new (interviews d) \<and>
                 (i_feedback new \<noteq> i_feedback iv \<or> i_status new \<noteq> i_status iv \<longrightarrow>
                    i_status iv = ''in_progress'' \<and> i_feedback iv = None \<and>
                    i_status new = ''completed'' \<and> i_feedback new \<noteq> None \<and>
                    completed reply \<and> feedback reply = i_feedback new)))"
proof (intro conjI impI)
  from reachable_lifecycle [OF assms] have ok: "\<forall>iv\<in>set (interviews d). lifecycle_ok iv"
    by simp
  then show "\<forall>iv\<in>set (interviews d). (i_feedback iv \<noteq> None) = (i_status iv = ''completed'')"
    by (auto simp: lifecycle_ok_def)
  {
    assume "start_interview send0 req uid0 t0 u k d = Inr (reply0, k0, d0)"
    from start_interview_effect [OF this]
    show "\<exists>new. interviews d0 = interviews d @ [new] \<and> i_status new = ''in_progress'' \<and>
                   i_feedback new = None"
      by auto
  }
  {
    assume sub: "submit_response send r uid t1 t2 u k d = Inr (reply, k', d')"
    have dist: "distinct (map i_id (interviews d))"
      using assms by (rule reachable_distinct)
    from submit_response_effect [OF dist sub] obtain iv new where
      iv: "iv \<in> set (interviews d)" "active_interview uid iv"
      and d': "d' = d\<lparr>interviews := replace_doc new (interviews d)\<rparr>"
      and new: "i_id new = i_id iv"
        "if length (i_questions iv) \<le> Suc (length (i_responses iv))
         then completed reply \<and> i_status new = ''completed'' \<and> i_feedback new = feedback reply \<and>
              feedback reply \<noteq> None
         else i_status new = i_status iv \<and> i_feedback new = i_feedback iv"
      by (fastforce split: if_splits)
    from ok iv have old: "i_status iv = ''in_progress''" "i_feedback iv = None"
      by (auto simp: lifecycle_ok_def active_interview_def)
    have "i_feedback new \<noteq> i_feedback iv \<or> i_status new \<noteq> i_status iv \<longrightarrow>
            i_status iv = ''in_progress'' \<and> i_feedback iv = None \<and>
            i_status new = ''completed'' \<and> i_feedback new \<noteq> None \<and>
            completed reply \<and> feedback reply = i_feedback new"
      using new(2) old by (auto split: if_splits)
    with iv(1) new(1) d'
    show "\<exists>iv new. iv \<in> set (interviews d) \<and> i_id new = i_id iv \<and>
                 interviews d' = replace_doc new (interviews d) \<and>
                 (i_feedback new \<noteq> i_feedback iv \<or> i_status new \<noteq> i_status iv \<longrightarrow>
                    i_status iv = ''in_progress'' \<and> i_feedback iv = None \<and>
                    i_status new = ''completed'' \<and> i_feedback new \<noteq> None \<and>
                    completed reply \<and> feedback reply = i_feedback new)"
      by (intro exI [of _ iv] exI [of _ new]) simp
  }
qed

theorem feedback_iff_completed_witness:
  "inj sample_uuid \<and>
   reachable sample_uuid (12, db_with [first_interview_done, second_interview_two]) \<and>
   (i_feedback first_interview_done \<noteq> None) = (i_status first_interview_done = ''completed'') \<and>
   i_status first_interview_done = ''completed'' \<and>
   (i_feedback second_interview_two \<noteq> None) = (i_status second_interview_two = ''completed'') \<and>
   i_status second_interview_two = ''in_progress'' \<and>
   (\<exists>reply0 d0. start_interview unavailable sample_request ''alice'' 80 sample_uuid 12
        (db_with [first_interview_done, second_interview_two]) = Inr (reply0, 17, d0) \<and>
      (\<exists>new. interviews d0 = [first_interview_done, second_interview_two] @ [new] \<and>
             i_status new = ''in_progress'' \<and> i_feedback new = None)) \<and>
   submit_response unavailable sample_answer ''alice'' 62 63 sample_uuid 12
       (db_with [first_interview_done, second_interview_two])
     = Inr (\<lparr>message = ''Interview completed!'', completed = True,
              feedback = Some fallback_feedback, next_question = None\<rparr>,
            13, db_with [first_interview_done, second_interview_done]) \<and>
   (\<exists>iv new. iv \<in> set [first_interview_done, second_interview_two] \<and> i_id new = i_id iv \<and>
        [first_interview_done, second_interview_done]
          = replace_doc new [first_interview_done, second_interview_two] \<and>
        (i_feedback new \<noteq> i_feedback iv \<or> i_status new \<noteq> i_status iv \<longrightarrow>
           i_status iv = ''in_progress'' \<and> i_feedback iv = None \<and>
           i_status new = ''completed'' \<and> i_feedback new = Some fallback_feedback))"
proof -
  from sample_start_again obtain reply0 d0 where
    st: "start_interview unavailable sample_request ''alice'' 80 sample_uuid 12
        (db_with [first_interview_done, second_interview_two]) = Inr (reply0, 17, d0)"
    by blast
  note inst = feedback_iff_completed [OF inj_sample_uuid sample_reachable_two,
      of unavailable sample_request "''alice''" 80 reply0 17 d0
         unavailable sample_answer "''alice''" 62 63
         "\<lparr>message = ''Interview completed!'', completed = True,
              feedback = Some fallback_feedback, next_question = None\<rparr>"
         13 "db_with [first_interview_done, second_interview_done]"]
  have ivs: "interviews (db_with [first_interview_done, second_interview_two])
               = [first_interview_done, second_interview_two]"
    "interviews (db_with [first_interview_done, second_interview_done])
               = [first_interview_done, second_interview_done]"
    by (simp_all add: db_with_def)
  from inst have a: "\<forall>iv\<in>set [first_interview_done, second_interview_two].
       (i_feedback iv \<noteq> None) = (i_status iv = ''completed'')"
    unfolding ivs by blast
  then have a1: "(i_feedback first_interview_done \<noteq> None) = (i_status first_interview_done = ''completed'')"
    and a2: "(i_feedback second_interview_two \<noteq> None) = (i_status second_interview_two = ''completed'')"
    by simp_all
  have s1: "i_status first_interview_done = ''completed''"
    and s2: "i_status second_interview_two = ''in_progress''"
    by (simp_all add: sample_defs second_interview_two_def)
  from inst st have b: "\<exists>new. interviews d0 = [first_interview_done, second_interview_two] @ [new] \<and>
             i_status new = ''in_progress'' \<and> i_feedback new = None"
    unfolding ivs by blast
  from inst sample_step_complete have c:
    "\<exists>iv new. iv \<in> set [first_interview_done, second_interview_two] \<and> i_id new = i_id iv \<and>
        [first_interview_done, second_interview_done]
          = replace_doc new [first_interview_done, second_interview_two] \<and>
        (i_feedback new \<noteq> i_feedback iv \<or> i_status new \<noteq> i_status iv \<longrightarrow>
           i_status iv = ''in_progress'' \<and> i_feedback iv = None \<and>
           i_status new = ''completed'' \<and> i_feedback new = Some fallback_feedback)"
    unfolding ivs by (simp del: set_simps) metis
  from st b have b': "\<exists>reply0 d0. start_interview unavailable sample_request ''alice'' 80 sample_uuid 12
        (db_with [first_interview_done, second_interview_two]) = Inr (reply0, 17, d0) \<and>
      (\<exists>new. interviews d0 = [first_interview_done, second_interview_two] @ [new] \<and>
             i_status new = ''in_progress'' \<and> i_feedback new = None)"
    by (intro exI [of _ reply0] exI [of _ d0] conjI)
  from inj_sample_uuid sample_reachable_two a1 s1 a2 s2 b' sample_step_complete c
  show ?thesis by (intro conjI)
qed



text \<open>
  C8: when \<open>register\<close> succeeds and the token codec decodes what it encoded (with the
  service's key and algorithm), the Authentication Gate resolves the returned token to
  the identity of the user that this registration created: the identifier drawn for it,
  stored in the new user document and returned in the reply.
\<close>

theorem register_token_round_trip:
  assumes "register codec hash_password user t1 t2 u k d = Inr (reply, k', d')"
    and "\<forall>p. jwt_decode codec (jwt_encode codec p SECRET_KEY ALGORITHM) SECRET_KEY [ALGORITHM] = Inr p"
  shows "get_current_user codec (access_token reply) = Inr (Str (view_id (user_info reply))) \<and>
         view_id (user_info reply) = u k \<and>
         (\<exists>doc. users d' = users d @ [doc] \<and> u_id doc = view_id (user_info reply) \<and>
                u_email doc = reg_email user)"
proof -
  from assms(1) have none: "find_one (\<lambda>x. u_email x = reg_email user) (users d) = None"
    by (auto simp: register_def split: option.splits)
  with assms(1) have
    tok: "access_token reply
            = create_access_token codec [''sub'' \<mapsto> Str (u k)] (Some (24 * 60 * 60)) t2"
    and who: "view_id (user_info reply) = u k"
    and docs: "users d' = users d @ [\<lparr>u_id = u k, u_email = reg_email user, u_name = reg_name user,
                 u_password = hash_password (reg_password user), u_created_at = t1\<rparr>]"
    by (auto simp: register_def uuid4_def insert_one_def)
  have "get_current_user codec (access_token reply) = Inr (Str (u k))"
    unfolding tok using assms(2)
    by (simp add: get_current_user_def create_access_token_def)
  with who docs show ?thesis by simp
qed

theorem register_token_round_trip_witness:
  "(\<forall>p. jwt_decode sample_codec (jwt_encode sample_codec p SECRET_KEY ALGORITHM)
          SECRET_KEY [ALGORITHM] = Inr p) \<and>
   (\<exists>reply d'. register sample_codec sample_hash sample_user 82 83 sample_uuid 12
        (db_with [first_interview_done, second_interview_two]) = Inr (reply, 13, d') \<and>
      get_current_user sample_codec (access_token reply) = Inr (Str (sample_uuid 12)) \<and>
      view_id (user_info reply) = sample_uuid 12)"
proof -
  have inv: "\<forall>p. jwt_decode sample_codec (jwt_encode sample_codec p SECRET_KEY ALGORITHM)
          SECRET_KEY [ALGORITHM] = Inr p"
    by (simp add: sample_codec_def)
  from sample_register obtain reply d' where
    rg: "register sample_codec sample_hash sample_user 82 83 sample_uuid 12
        (db_with [first_interview_done, second_interview_two]) = Inr (reply, 13, d')"
    by blast
  from register_token_round_trip [OF rg inv]
  have "get_current_user sample_codec (access_token reply) = Inr (Str (sample_uuid 12)) \<and>
        view_id (user_info reply) = sample_uuid 12"
    by simp
  with rg have "\<exists>reply d'. register sample_codec sample_hash sample_user 82 83 sample_uuid 12
        (db_with [first_interview_done, second_interview_two]) = Inr (reply, 13, d') \<and>
      get_current_user sample_codec (access_token reply) = Inr (Str (sample_uuid 12)) \<and>
      view_id (user_info reply) = sample_uuid 12"
    by (intro exI [of _ reply] exI [of _ d']) simp
  with inv show ?thesis by (intro conjI)
qed

text \<open>
  C2, as stated: when the external generation call fails, two calls of the Question
  Generator with the same job role return identical question lists. The code draws a
  fresh identifier for every template question, so two successive calls with the same
  arguments, drawing from a source that never repeats a value, return different lists.
\<close>

theorem fallback_ids_differ_counterexample:
  "fst (generate_interview_questions unavailable ''cv'' ''Engineer'' ''mid'' sample_uuid 0)
     \<noteq> fst (generate_interview_questions unavailable ''cv'' ''Engineer'' ''mid'' sample_uuid
              (snd (generate_interview_questions unavailable ''cv'' ''Engineer'' ''mid'' sample_uuid 0)))"
  by (simp add: generate_interview_questions_def questions_try_def except_fallback_def
      unavailable_def uuid4_def sample_uuid_eq)

text \<open>
  C2, amended: when the external generation call fails with an exception derived from
  \<open>Exception\<close> (one that the generator's handler catches), the Question Generator returns
  exactly three questions whose text, category tag and topic are fixed by the job role
  alone (the handler's template), so two such calls with the same job role return lists
  that agree in everything but the question identifiers; the identifiers are the next
  three values drawn from the identifier source after the session identifier.
\<close>

theorem fallback_fixed_up_to_ids:
  assumes "send (question_request (u k) resume job level) = Inl (Exception e)"
    and "send' (question_request (u' k') resume' job level') = Inl (Exception e')"
  shows "\<exists>qs qs'.
           generate_interview_questions send resume job level u k = (Inr qs, k + 4) \<and>
           generate_interview_questions send' resume' job level' u' k' = (Inr qs', k' + 4) \<and>
           length qs = 3 \<and> length qs' = 3 \<and>
           map question_view qs = map question_view qs' \<and>
           map question_view qs =
             [(''Tell me about your experience in '' @ job @ ''.'', ''technical'', ''experience''),
              (''Walk me through your most challenging project.'', ''behavioral'', ''projects''),
              (''How do you approach problem-solving?'', ''technical'', ''problem-solving'')] \<and>
           map q_id qs = [u (k + 1), u (k + 2), u (k + 3)] \<and>
           map q_id qs' = [u' (k' + 1), u' (k' + 2), u' (k' + 3)]"
proof -
  have a: "generate_interview_questions send resume job level u k
             = (Inr (fst (except_fallback job u (Suc k))), k + 4)"
    using assms(1) by (rule generate_questions_except)
  have b: "generate_interview_questions send' resume' job level' u' k'
             = (Inr (fst (except_fallback job u' (Suc k'))), k' + 4)"
    using assms(2) by (rule generate_questions_except)
  show ?thesis
    unfolding a b
    by (rule exI [of _ "fst (except_fallback job u (Suc k))"],
        rule exI [of _ "fst (except_fallback job u' (Suc k'))"])
       (simp add: except_fallback_def uuid4_def question_view_def eval_nat_numeral)
qed

theorem fallback_fixed_up_to_ids_witness:
  "unavailable (question_request (sample_uuid 0) ''cv'' ''Engineer'' ''mid'')
     = Inl (Exception ''service unavailable'') \<and>
   unavailable (question_request (sample_uuid 4) ''another cv'' ''Engineer'' ''senior'')
     = Inl (Exception ''service unavailable'') \<and>
   (\<exists>qs qs'.
      generate_interview_questions unavailable ''cv'' ''Engineer'' ''mid'' sample_uuid 0 = (Inr qs, 4) \<and>
      generate_interview_questions unavailable ''another cv'' ''Engineer'' ''senior'' sample_uuid 4
        = (Inr qs', 8) \<and>
      length qs = 3 \<and>
      map question_view qs = map question_view qs' \<and>
      map q_id qs = [sample_uuid 1, sample_uuid 2, sample_uuid 3] \<and>
      map q_id qs' = [sample_uuid 5, sample_uuid 6, sample_uuid 7])"
proof -
  have h1: "unavailable (question_request (sample_uuid 0) ''cv'' ''Engineer'' ''mid'')
     = Inl (Exception ''service unavailable'')"
    by (simp add: unavailable_def)
  have h2: "unavailable (question_request (sample_uuid 4) ''another cv'' ''Engineer'' ''senior'')
     = Inl (Exception ''service unavailable'')"
    by (simp add: unavailable_def)
  from fallback_fixed_up_to_ids [where send = unavailable and u = sample_uuid and k = 0
      and send' = unavailable and u' = sample_uuid and k' = 4, OF h1 h2]
  have "\<exists>qs qs'.
      generate_interview_questions unavailable ''cv'' ''Engineer'' ''mid'' sample_uuid 0 = (Inr qs, 4) \<and>
      generate_interview_questions unavailable ''another cv'' ''Engineer'' ''senior'' sample_uuid 4
        = (Inr qs', 8) \<and>
      length qs = 3 \<and>
      map question_view qs = map question_view qs' \<and>
      map q_id qs = [sample_uuid 1, sample_uuid 2, sample_uuid 3] \<and>
      map q_id qs' = [sample_uuid 5, sample_uuid 6, sample_uuid 7]"
    by (auto simp: sample_uuid_eq)
  with h1 h2 show ?thesis by (intro conjI)
qed

text \<open>
  C3, as stated: every non-empty line of the reply that does not start with the heading
  marker becomes a question, the tags alternate technical/behavioral with the position
  of the question, and at most seven questions are produced (\<open>spec_questions\<close>). On a
  reply of five questions separated by blank lines the code looks at the first seven
  lines only and tags by the index of the line: it returns four questions, all tagged
  technical, where the statement asks for five with alternating tags.
\<close>

theorem parsing_by_line_index_counterexample:
  "map question_view
     (case fst (generate_interview_questions (replies_with sample_reply) ''cv'' ''Engineer''
                  ''mid'' sample_uuid 0) of Inr qs \<Rightarrow> qs | Inl e \<Rightarrow> [])
     = [(''Q1'', ''technical'', ''general''), (''Q2'', ''technical'', ''general''),
        (''Q3'', ''technical'', ''general''), (''Q4'', ''technical'', ''general'')] \<and>
   spec_questions sample_reply
     = [(''Q1'', ''technical'', ''general''), (''Q2'', ''behavioral'', ''general''),
        (''Q3'', ''technical'', ''general''), (''Q4'', ''behavioral'', ''general''),
        (''Q5'', ''technical'', ''general'')] \<and>
   map question_view
     (case fst (generate_interview_questions (replies_with sample_reply) ''cv'' ''Engineer''
                  ''mid'' sample_uuid 0) of Inr qs \<Rightarrow> qs | Inl e \<Rightarrow> [])
     \<noteq> spec_questions sample_reply"
proof -
  have code: "map question_view
     (case fst (generate_interview_questions (replies_with sample_reply) ''cv'' ''Engineer''
                  ''mid'' sample_uuid 0) of Inr qs \<Rightarrow> qs | Inl e \<Rightarrow> [])
     = [(''Q1'', ''technical'', ''general''), (''Q2'', ''technical'', ''general''),
        (''Q3'', ''technical'', ''general''), (''Q4'', ''technical'', ''general'')]"
    by (simp add: generate_interview_questions_def questions_try_def replies_with_def
        sample_reply_def enumerate_py_def keeps_line_def strip_def isspace_def startswith_def
        parsed_question_def question_view_def upt_rec)
  have spec: "spec_questions sample_reply
     = [(''Q1'', ''technical'', ''general''), (''Q2'', ''behavioral'', ''general''),
        (''Q3'', ''technical'', ''general''), (''Q4'', ''behavioral'', ''general''),
        (''Q5'', ''technical'', ''general'')]"
    by (simp add: spec_questions_def sample_reply_def enumerate_py_def keeps_line_def
        strip_def isspace_def startswith_def upt_rec)
  show ?thesis unfolding code spec by simp
qed

text \<open>
  C3, amended: for every raw text returned by the external generation call, the Question
  Generator splits it into lines and looks at the first seven lines only. Each of these
  lines whose stripped text is non-empty and which does not start with \<open>#\<close> becomes a
  question holding the stripped text, tagged technical when the index of the line among
  all lines (from 0) is even and behavioral when it is odd, with the topic \<open>general\<close> and
  the next identifier drawn from the source. At most seven questions result; when at
  least three result they are the list returned, otherwise the five template questions
  for the job role replace them.
\<close>

theorem generated_questions_from_lines:
  assumes "send (question_request (u k) resume job level) = Inr response"
  shows "length (kept_lines response) \<le> 7 \<and>
         generate_interview_questions send resume job level u k =
           (if 3 \<le> length (kept_lines response)
            then (Inr (map (\<lambda>(n, i, q).
                          \<lparr>q_id = u n, q_question = strip q,
                           q_type = (if i mod 2 = 0 then ''technical'' else ''behavioral''),
                           q_topic = ''general''\<rparr>)
                        (zip [Suc k..<Suc k + length (kept_lines response)] (kept_lines response))),
                  Suc k + length (kept_lines response))
            else (Inr (fst (parse_fallback job u (Suc k + length (kept_lines response)))),
                  Suc k + length (kept_lines response) + 5))"
  using generate_questions_parsed [where send = send and u = u and k = k, OF assms,
      unfolded parsed_question_def]
    kept_lines_length [of response]
  by simp

theorem generated_questions_from_lines_witness:
  "replies_with sample_reply (question_request (sample_uuid 0) ''cv'' ''Engineer'' ''mid'')
     = Inr sample_reply \<and>
   kept_lines sample_reply = [(0, ''Q1''), (2, ''Q2''), (4, ''Q3''), (6, ''Q4'')] \<and>
   generate_interview_questions (replies_with sample_reply) ''cv'' ''Engineer'' ''mid'' sample_uuid 0
     = (Inr [\<lparr>q_id = sample_uuid 1, q_question = ''Q1'', q_type = ''technical'', q_topic = ''general''\<rparr>,
             \<lparr>q_id = sample_uuid 2, q_question = ''Q2'', q_type = ''technical'', q_topic = ''general''\<rparr>,
             \<lparr>q_id = sample_uuid 3, q_question = ''Q3'', q_type = ''technical'', q_topic = ''general''\<rparr>,
             \<lparr>q_id = sample_uuid 4, q_question = ''Q4'', q_type = ''technical'', q_topic = ''general''\<rparr>],
        5)"
proof -
  have h: "replies_with sample_reply (question_request (sample_uuid 0) ''cv'' ''Engineer'' ''mid'')
     = Inr sample_reply"
    by (simp add: replies_with_def)
  have kept: "kept_lines sample_reply = [(0, ''Q1''), (2, ''Q2''), (4, ''Q3''), (6, ''Q4'')]"
    by (simp add: kept_lines_def sample_reply_def enumerate_py_def keeps_line_def
        strip_def isspace_def startswith_def upt_rec)
  from generated_questions_from_lines [where send = "replies_with sample_reply" and u = sample_uuid
      and k = 0, OF h]
  have "generate_interview_questions (replies_with sample_reply) ''cv'' ''Engineer'' ''mid'' sample_uuid 0
     = (Inr [\<lparr>q_id = sample_uuid 1, q_question = ''Q1'', q_type = ''technical'', q_topic = ''general''\<rparr>,
             \<lparr>q_id = sample_uuid 2, q_question = ''Q2'', q_type = ''technical'', q_topic = ''general''\<rparr>,
             \<lparr>q_id = sample_uuid 3, q_question = ''Q3'', q_type = ''technical'', q_topic = ''general''\<rparr>,
             \<lparr>q_id = sample_uuid 4, q_question = ''Q4'', q_type = ''technical'', q_topic = ''general''\<rparr>],
        5)"
    unfolding kept by (simp add: upt_rec strip_def isspace_def sample_uuid_eq)
  with h kept show ?thesis by (intro conjI)
qed


end
